theory Spec2Isabelle
  imports Main
begin

section \<open>JavaScript data handled by googleCloud.ts\<close>

text \<open>
  The drawing elements, the binary files and every parsed HTTP body are JSON data.
  A finite number is carried as the text that ECMAScript's number-to-string conversion
  gives it (the only thing \<^verbatim>\<open>JSON.stringify\<close> does with it); an object is the list of
  its own enumerable properties in insertion order.
\<close>

datatype json =
    JNull
  | JBool bool
  | JNum string
  | JStr string
  | JArr "json list"
  | JObj "(string \<times> json) list"

text \<open>Property access \<^verbatim>\<open>o.k\<close> on an object: \<open>None\<close> is \<^verbatim>\<open>undefined\<close>.\<close>

definition field :: "string \<Rightarrow> json \<Rightarrow> json option" where
  "field k j = (case j of JObj kvs \<Rightarrow> map_of kvs k | _ \<Rightarrow> None)"

text \<open>JavaScript truthiness of a string: the empty string is falsy.\<close>

definition truthy_str :: "string option \<Rightarrow> bool" where
  "truthy_str v = (case v of None \<Rightarrow> False | Some s \<Rightarrow> s \<noteq> [])"

definition truthy :: "json option \<Rightarrow> bool" where
  "truthy v = (case v of None \<Rightarrow> False
     | Some JNull \<Rightarrow> False
     | Some (JBool b) \<Rightarrow> b
     | Some (JNum n) \<Rightarrow> n \<noteq> ''0''
     | Some (JStr s) \<Rightarrow> s \<noteq> []
     | Some _ \<Rightarrow> True)"

subsection \<open>JSON.stringify\<close>

text \<open>
  \<^verbatim>\<open>JSON.stringify(value, null, gap)\<close> after ECMA-262 (SerializeJSONProperty, QuoteJSONString,
  SerializeJSONObject, SerializeJSONArray). \<open>gap\<close> is the indentation unit: two spaces for
  \<^verbatim>\<open>JSON.stringify(data, null, 2)\<close>, empty for \<^verbatim>\<open>JSON.stringify(metadata)\<close>.
\<close>

definition nl :: string where
  "nl = [CHR 0x0A]"

definition dq :: string where
  "dq = [CHR 0x22]"

definition hex_digit :: "nat \<Rightarrow> char" where
  "hex_digit n = (''0123456789abcdef'' ! (n mod 16))"

definition quote_char :: "char \<Rightarrow> string" where
  "quote_char c =
     (if c = CHR 0x08 then [CHR 0x5C, CHR ''b'']
      else if c = CHR 0x09 then [CHR 0x5C, CHR ''t'']
      else if c = CHR 0x0A then [CHR 0x5C, CHR ''n'']
      else if c = CHR 0x0C then [CHR 0x5C, CHR ''f'']
      else if c = CHR 0x0D then [CHR 0x5C, CHR ''r'']
      else if c = CHR 0x22 then [CHR 0x5C, CHR 0x22]
      else if c = CHR 0x5C then [CHR 0x5C, CHR 0x5C]
      else if of_char c < (32 :: nat)
        then [CHR 0x5C, CHR ''u'', CHR ''0'', CHR ''0'',
              hex_digit (of_char c div 16), hex_digit (of_char c)]
      else [c])"

definition quoteJSONString :: "string \<Rightarrow> string" where
  "quoteJSONString s = dq @ concat (map quote_char s) @ dq"

fun join :: "string \<Rightarrow> string list \<Rightarrow> string" where
  "join sep [] = []"
| "join sep [x] = x"
| "join sep (x # y # ys) = x @ sep @ join sep (y # ys)"

fun serialize :: "string \<Rightarrow> string \<Rightarrow> json \<Rightarrow> string" where
  "serialize gap indent JNull = ''null''"
| "serialize gap indent (JBool b) = (if b then ''true'' else ''false'')"
| "serialize gap indent (JNum n) = n"
| "serialize gap indent (JStr s) = quoteJSONString s"
| "serialize gap indent (JArr xs) =
     (if xs = [] then ''[]''
      else if gap = [] then ''['' @ join '','' (map (serialize gap (indent @ gap)) xs) @ '']''
      else ''['' @ nl @ (indent @ gap)
           @ join ('','' @ nl @ (indent @ gap)) (map (serialize gap (indent @ gap)) xs)
           @ nl @ indent @ '']'')"
| "serialize gap indent (JObj kvs) =
     (if kvs = [] then ''{}''
      else if gap = []
        then ''{'' @ join '',''
               (map (\<lambda>(k, v). quoteJSONString k @ '':'' @ serialize gap (indent @ gap) v) kvs)
             @ ''}''
      else ''{'' @ nl @ (indent @ gap)
           @ join ('','' @ nl @ (indent @ gap))
               (map (\<lambda>(k, v). quoteJSONString k @ '': '' @ serialize gap (indent @ gap) v) kvs)
           @ nl @ indent @ ''}'')"

definition stringify :: "json \<Rightarrow> nat \<Rightarrow> string" where
  "stringify value space = serialize (replicate (min space 10) CHR '' '') [] value"

fun show_nat :: "nat \<Rightarrow> string" where
  "show_nat n =
     (if n < 10 then [''0123456789'' ! n]
      else show_nat (n div 10) @ [''0123456789'' ! (n mod 10)])"

section \<open>Thrown values, promises and the process state\<close>

text \<open>
  A value that reaches a \<^verbatim>\<open>catch\<close> clause is seen only through the properties the handlers
  read: \<^verbatim>\<open>error.message\<close>, \<^verbatim>\<open>error.details\<close>, \<^verbatim>\<open>error.error\<close>, its conversion to a
  string inside a template literal, and \<^verbatim>\<open>typeof error === "string"\<close>. \<open>JsObject\<close> is an
  object with these observations, \<open>JsString\<close> a thrown string primitive. The library
  calls used here (gapi, Google Identity Services, fetch) reject with objects or strings,
  never with \<^verbatim>\<open>null\<close> or \<^verbatim>\<open>undefined\<close>.
\<close>

datatype js_error =
    JsObject "string option" "string option" "json option" string
  | JsString string

fun err_message :: "js_error \<Rightarrow> string option" where
  "err_message (JsObject m d e s) = m"
| "err_message (JsString s) = None"

fun err_details :: "js_error \<Rightarrow> string option" where
  "err_details (JsObject m d e s) = d"
| "err_details (JsString s) = None"

fun err_error :: "js_error \<Rightarrow> json option" where
  "err_error (JsObject m d e s) = e"
| "err_error (JsString s) = None"

fun to_String :: "js_error \<Rightarrow> string" where
  "to_String (JsObject m d e s) = s"
| "to_String (JsString s) = s"

definition new_Error :: "string \<Rightarrow> js_error" where
  "new_Error m = JsObject (Some m) None None (if m = [] then ''Error'' else ''Error: '' @ m)"

definition new_TypeError :: "string \<Rightarrow> js_error" where
  "new_TypeError m =
     JsObject (Some m) None None (if m = [] then ''TypeError'' else ''TypeError: '' @ m)"

text \<open>\<^verbatim>\<open>error.message || dflt\<close>\<close>

definition message_or :: "js_error \<Rightarrow> string \<Rightarrow> string" where
  "message_or e dflt =
     (case err_message e of Some m \<Rightarrow> if m \<noteq> [] then m else dflt | None \<Rightarrow> dflt)"

text \<open>\<^verbatim>\<open>error.message || error\<close> inside a template literal\<close>

definition message_or_self :: "js_error \<Rightarrow> string" where
  "message_or_self e = message_or e (to_String e)"

text \<open>
  A promise handed out by a library either resolves, rejects, or is never settled (the
  callback is never invoked, the request never completes).
\<close>

datatype 'a settled = Resolves 'a | Rejects js_error | NeverSettles

text \<open>The outcome of an \<^verbatim>\<open>async\<close> function for its caller.\<close>

datatype 'a outcome = Returned 'a | Thrown js_error | Pending

subsection \<open>Requests and responses\<close>

text \<open>
  The \<open>q\<close> strings built by the module:
  \<^verbatim>\<open>name='N' and mimeType='M' and trashed=false\<close> and \<^verbatim>\<open>'P' in parents and trashed=false\<close>.
\<close>

datatype query =
    NameMimeNotTrashed string string
  | InParentsNotTrashed string

record list_request =
  req_q :: query
  req_fields :: string
  req_spaces :: "string option"
  req_orderBy :: "string option"
  req_pageSize :: "nat option"

record file_resource =
  file_id :: string
  file_name :: string
  createdTime :: "nat option"
  modifiedTime :: "nat option"

record list_response =
  files :: "file_resource list option"

record create_request =
  resource_name :: string
  resource_mimeType :: string
  create_fields :: string

record fetch_request =
  url :: string
  http_method :: string
  authorization :: string
  form_metadata :: "string option"
  form_file :: "string option"

record http_response =
  ok :: bool
  status :: nat
  statusText :: string
  body_text :: "string settled"
  body_json :: "json settled"

record token_response =
  error :: "string option"
  error_description :: "string option"
  access_token :: "string option"

text \<open>
  \<^verbatim>\<open>initTokenClient\<close> / \<^verbatim>\<open>requestAccessToken\<close>: the call throws, or the callback is invoked
  with a response, or the callback is never invoked (the consent window is closed).
\<close>

datatype auth_outcome =
    AuthThrows js_error
  | AuthResponds token_response
  | AuthSilent

text \<open>Everything outside the module that one invocation of an operation observes.\<close>

record env =
  now_iso :: string
  gapi_init :: "unit settled"
  gis_present :: bool
  auth :: auth_outcome
  files_list :: "list_request \<Rightarrow> list_response settled"
  files_create :: "create_request \<Rightarrow> string settled"
  fetch :: "fetch_request \<Rightarrow> http_response settled"

text \<open>The calls that leave the module, in the order they are made.\<close>

datatype call =
    GapiClientInit
  | RequestAccessToken
  | DriveFilesList list_request
  | DriveFilesCreate create_request
  | Fetch fetch_request

text \<open>
  \<^verbatim>\<open>window.gapi\<close>: not attached, attached without \<^verbatim>\<open>client.drive\<close>, or attached with the
  Drive client that \<^verbatim>\<open>gapi.client.init\<close> installs from the discovery document.
\<close>

datatype gapi_state = GapiAbsent | GapiLoaded | DriveReady

record state =
  accessToken :: "string option"
  gapi :: gapi_state
  trace :: "call list"

type_synonym 'a comp = "state \<Rightarrow> 'a outcome \<times> state"

definition js_return :: "'a \<Rightarrow> 'a comp" where
  "js_return a s = (Returned a, s)"

definition js_throw :: "js_error \<Rightarrow> 'a comp" where
  "js_throw e s = (Thrown e, s)"

definition js_read :: "(state \<Rightarrow> 'a) \<Rightarrow> 'a comp" where
  "js_read f s = (Returned (f s), s)"

definition js_call :: "call \<Rightarrow> unit comp" where
  "js_call c s = (Returned (), s\<lparr>trace := trace s @ [c]\<rparr>)"

definition await :: "'a settled \<Rightarrow> 'a comp" where
  "await p s =
     (case p of Resolves a \<Rightarrow> (Returned a, s)
      | Rejects e \<Rightarrow> (Thrown e, s)
      | NeverSettles \<Rightarrow> (Pending, s))"

definition andThen :: "'a comp \<Rightarrow> ('a \<Rightarrow> 'b comp) \<Rightarrow> 'b comp" where
  "andThen m k s =
     (case m s of
        (Returned a, s') \<Rightarrow> k a s'
      | (Thrown e, s') \<Rightarrow> (Thrown e, s')
      | (Pending, s') \<Rightarrow> (Pending, s'))"

definition tryCatch :: "'a comp \<Rightarrow> (js_error \<Rightarrow> 'a comp) \<Rightarrow> 'a comp" where
  "tryCatch m h s =
     (case m s of
        (Thrown e, s') \<Rightarrow> h e s'
      | r \<Rightarrow> r)"

definition assign_accessToken :: "string \<Rightarrow> unit comp" where
  "assign_accessToken token s = (Returned (), s\<lparr>accessToken := Some token\<rparr>)"

definition install_drive :: "unit comp" where
  "install_drive s = (Returned (), s\<lparr>gapi := DriveReady\<rparr>)"

definition or_empty :: "string option \<Rightarrow> string" where
  "or_empty v = (case v of Some s \<Rightarrow> s | None \<Rightarrow> [])"

section \<open>The module googleCloud.ts\<close>

definition folderName :: string where
  "folderName = ''excalidraw''"

record SaveToCloudResult =
  success :: bool
  message :: string
  fileName :: "json option"

subsection \<open>loadGoogleDriveAPI\<close>

text \<open>The message built by the \<^verbatim>\<open>catch\<close> clause around \<^verbatim>\<open>gapi.client.init\<close>.\<close>

definition init_error_message :: "js_error \<Rightarrow> string" where
  "init_error_message e =
     (if truthy_str (err_details e) then or_empty (err_details e)
      else if truthy (err_error e)
        then (case err_error e of
                Some (JStr s) \<Rightarrow> s
              | Some j \<Rightarrow> stringify j 0
              | None \<Rightarrow> ''Unknown error'')
      else if truthy_str (err_message e) then or_empty (err_message e)
      else (case e of JsString s \<Rightarrow> s | _ \<Rightarrow> ''Unknown error''))"

definition loadGoogleDriveAPI :: "env \<Rightarrow> unit comp" where
  "loadGoogleDriveAPI env =
     andThen (js_read gapi) (\<lambda>g.
       if g = DriveReady then js_return ()
       else if g = GapiAbsent
         then js_throw (new_TypeError ''Cannot read properties of undefined (reading 'load')'')
       else
         andThen (js_call GapiClientInit) (\<lambda>_.
         andThen
           (tryCatch (await (gapi_init env)) (\<lambda>error.
              js_throw (new_Error
                (''Google API initialization failed: '' @ init_error_message error))))
           (\<lambda>_. install_drive)))"

subsection \<open>authenticateGoogleUser\<close>

definition authenticateGoogleUser :: "env \<Rightarrow> string option comp" where
  "authenticateGoogleUser env =
     (if \<not> gis_present env
        then js_throw (new_Error
               ''Google Identity Services not loaded. Please refresh the page.'')
      else
        (case auth env of
           AuthThrows e \<Rightarrow>
             js_throw (new_Error
               (''Authentication failed: '' @ message_or e ''Unknown error''))
         | AuthResponds response \<Rightarrow>
             andThen (js_call RequestAccessToken) (\<lambda>_.
               if truthy_str (error response)
                 then js_throw (new_Error
                        (''Authentication failed: '' @
                           (if truthy_str (error_description response)
                              then or_empty (error_description response)
                              else or_empty (error response))))
                 else js_return (access_token response))
         | AuthSilent \<Rightarrow>
             andThen (js_call RequestAccessToken) (\<lambda>_. await NeverSettles)))"

subsection \<open>getOrCreateFolder\<close>

definition folder_search_request :: "string \<Rightarrow> list_request" where
  "folder_search_request name =
     \<lparr>req_q = NameMimeNotTrashed name ''application/vnd.google-apps.folder'',
      req_fields = ''files(id, name)'',
      req_spaces = Some ''drive'',
      req_orderBy = None,
      req_pageSize = None\<rparr>"

definition folder_create_request :: "string \<Rightarrow> create_request" where
  "folder_create_request name =
     \<lparr>resource_name = name,
      resource_mimeType = ''application/vnd.google-apps.folder'',
      create_fields = ''id''\<rparr>"

definition getOrCreateFolder :: "env \<Rightarrow> string \<Rightarrow> string comp" where
  "getOrCreateFolder env name =
     tryCatch
       (andThen (js_read gapi) (\<lambda>g.
          if g \<noteq> DriveReady
            then js_throw (new_TypeError
                   ''Cannot read properties of undefined (reading 'files')'')
          else
            andThen (js_call (DriveFilesList (folder_search_request name))) (\<lambda>_.
            andThen (await (files_list env (folder_search_request name))) (\<lambda>response.
              (case files response of
                 Some (f # fs) \<Rightarrow> js_return (file_id f)
               | _ \<Rightarrow>
                 andThen (js_call (DriveFilesCreate (folder_create_request name))) (\<lambda>_.
                 andThen (await (files_create env (folder_create_request name))) (\<lambda>folder.
                   js_return folder)))))))
       (\<lambda>error. js_throw (new_Error (''Folder operation failed: '' @ message_or_self error)))"

subsection \<open>uploadToGoogleDrive\<close>

definition upload_metadata :: "string \<Rightarrow> string \<Rightarrow> json" where
  "upload_metadata name folderId =
     JObj [(''name'', JStr name),
           (''mimeType'', JStr ''application/json''),
           (''parents'', JArr [JStr folderId])]"

definition upload_request :: "string \<Rightarrow> string \<Rightarrow> string \<Rightarrow> string \<Rightarrow> fetch_request" where
  "upload_request token file name folderId =
     \<lparr>url = ''https://www.googleapis.com/upload/drive/v3/files?uploadType=multipart'',
      http_method = ''POST'',
      authorization = ''Bearer '' @ token,
      form_metadata = Some (stringify (upload_metadata name folderId) 0),
      form_file = Some file\<rparr>"

definition uploadToGoogleDrive :: "env \<Rightarrow> string \<Rightarrow> string \<Rightarrow> string \<Rightarrow> json comp" where
  "uploadToGoogleDrive env file name folderId =
     tryCatch
       (andThen (js_read accessToken) (\<lambda>tok.
          if \<not> truthy_str tok then js_throw (new_Error ''No access token available'')
          else
            andThen (js_call (Fetch (upload_request (or_empty tok) file name folderId))) (\<lambda>_.
            andThen (await (fetch env (upload_request (or_empty tok) file name folderId)))
              (\<lambda>response.
                if \<not> ok response
                  then andThen (await (body_text response)) (\<lambda>errorText.
                         js_throw (new_Error
                           (''Failed to upload file to Google Drive: ''
                              @ show_nat (status response) @ '' '' @ statusText response)))
                  else await (body_json response)))))
       (\<lambda>error. js_throw (new_Error (''Upload failed: '' @ message_or_self error)))"

subsection \<open>saveToGoogleCloud\<close>

text \<open>\<^verbatim>\<open>new Date().toISOString().replace(/[:.]/g, "-")\<close>\<close>

definition replace_colon_dot :: "string \<Rightarrow> string" where
  "replace_colon_dot text =
     map (\<lambda>c. if c = CHR '':'' \<or> c = CHR ''.'' then CHR ''-'' else c) text"

definition generated_fileName :: "env \<Rightarrow> string" where
  "generated_fileName env = ''excalidraw-'' @ replace_colon_dot (now_iso env) @ ''.excalidraw''"

definition save_data :: "json list \<Rightarrow> (string \<times> json) list \<Rightarrow> json" where
  "save_data elements binaryFiles =
     JObj [(''type'', JStr ''excalidraw''),
           (''version'', JNum ''2''),
           (''source'', JStr ''https://excalidraw.com''),
           (''elements'', JArr elements),
           (''appState'', JObj [(''viewBackgroundColor'', JStr ''#ffffff'')]),
           (''files'', JObj binaryFiles)]"

text \<open>\<^verbatim>\<open>uploadResult.name\<close> on the parsed response body.\<close>

definition name_of_result :: "json \<Rightarrow> json option comp" where
  "name_of_result uploadResult =
     (case uploadResult of
        JNull \<Rightarrow> js_throw (new_TypeError ''Cannot read properties of null (reading 'name')'')
      | _ \<Rightarrow> js_return (field ''name'' uploadResult))"

definition save_body ::
  "env \<Rightarrow> json list \<Rightarrow> (string \<times> json) list \<Rightarrow> SaveToCloudResult comp" where
  "save_body env elements binaryFiles =
     andThen (js_read gapi) (\<lambda>g.
       if g = GapiAbsent
         then js_throw (new_Error ''Google API not loaded. Please refresh the page.'')
       else
         andThen (loadGoogleDriveAPI env) (\<lambda>_.
         andThen (authenticateGoogleUser env) (\<lambda>token.
           if \<not> truthy_str token
             then js_throw (new_Error ''Google authentication failed or was cancelled.'')
           else
             andThen (assign_accessToken (or_empty token)) (\<lambda>_.
             andThen (getOrCreateFolder env folderName) (\<lambda>folderId.
             andThen (uploadToGoogleDrive env
                        (stringify (save_data elements binaryFiles) 2)
                        (generated_fileName env) folderId) (\<lambda>uploadResult.
             andThen (name_of_result uploadResult) (\<lambda>name.
               js_return \<lparr>success = True,
                          message = ''File saved successfully to Google Cloud!'',
                          fileName = name\<rparr>)))))))"

definition saveToGoogleCloud ::
  "env \<Rightarrow> json list \<Rightarrow> (string \<times> json) list \<Rightarrow> SaveToCloudResult comp" where
  "saveToGoogleCloud env elements binaryFiles =
     tryCatch (save_body env elements binaryFiles)
       (\<lambda>error. js_return \<lparr>success = False,
                           message = ''Failed to save: '' @ message_or error ''Unknown error'',
                           fileName = None\<rparr>)"

subsection \<open>listFilesFromGoogleCloud\<close>

definition file_listing_request :: "string \<Rightarrow> list_request" where
  "file_listing_request folderId =
     \<lparr>req_q = InParentsNotTrashed folderId,
      req_fields = ''files(id, name, createdTime, modifiedTime)'',
      req_spaces = None,
      req_orderBy = Some ''modifiedTime desc'',
      req_pageSize = Some 100\<rparr>"

definition list_body :: "env \<Rightarrow> file_resource list comp" where
  "list_body env =
     andThen (loadGoogleDriveAPI env) (\<lambda>_.
     andThen (authenticateGoogleUser env) (\<lambda>token.
       if \<not> truthy_str token
         then js_throw (new_Error ''Google authentication failed or was cancelled.'')
       else
         andThen (assign_accessToken (or_empty token)) (\<lambda>_.
         andThen (getOrCreateFolder env folderName) (\<lambda>folderId.
         andThen (js_call (DriveFilesList (file_listing_request folderId))) (\<lambda>_.
         andThen (await (files_list env (file_listing_request folderId))) (\<lambda>response.
           js_return (case files response of Some fs \<Rightarrow> fs | None \<Rightarrow> [])))))))"

definition listFilesFromGoogleCloud :: "env \<Rightarrow> file_resource list comp" where
  "listFilesFromGoogleCloud env =
     tryCatch (list_body env)
       (\<lambda>error. js_throw (new_Error
          (''Failed to list files: '' @ message_or error ''Unknown error'')))"

subsection \<open>loadFromGoogleCloud\<close>

definition download_request :: "string \<Rightarrow> string \<Rightarrow> fetch_request" where
  "download_request token fileId =
     \<lparr>url = ''https://www.googleapis.com/drive/v3/files/'' @ fileId @ ''?alt=media'',
      http_method = ''GET'',
      authorization = ''Bearer '' @ token,
      form_metadata = None,
      form_file = None\<rparr>"

definition load_body :: "env \<Rightarrow> string \<Rightarrow> json comp" where
  "load_body env fileId =
     andThen (js_read accessToken) (\<lambda>tok.
       if \<not> truthy_str tok then js_throw (new_Error ''Not authenticated. Please try again.'')
       else
         andThen (js_call (Fetch (download_request (or_empty tok) fileId))) (\<lambda>_.
         andThen (await (fetch env (download_request (or_empty tok) fileId))) (\<lambda>response.
           if \<not> ok response
             then andThen (await (body_text response)) (\<lambda>errorText.
                    js_throw (new_Error
                      (''Failed to download file: '' @ statusText response)))
             else await (body_json response))))"

definition loadFromGoogleCloud :: "env \<Rightarrow> string \<Rightarrow> json comp" where
  "loadFromGoogleCloud env fileId =
     tryCatch (load_body env fileId)
       (\<lambda>error. js_throw (new_Error
          (''Failed to load file: '' @ message_or error ''Unknown error'')))"

section \<open>Sessions and observations\<close>

text \<open>
  The calls made between two states of one run: the trace only grows, so these are the
  entries of the later trace beyond the length of the earlier one.
\<close>

definition new_calls :: "state \<Rightarrow> state \<Rightarrow> call list" where
  "new_calls s s' = drop (length (trace s)) (trace s')"

text \<open>
  A session is a sequence of user actions, each run to the point where it returns, throws
  or stays pending, one after the other on the same process state.
\<close>

datatype operation =
    Save env "json list" "(string \<times> json) list"
  | ListFiles env
  | LoadFile env string

fun perform :: "operation \<Rightarrow> state \<Rightarrow> state" where
  "perform (Save env elements binaryFiles) s = snd (saveToGoogleCloud env elements binaryFiles s)"
| "perform (ListFiles env) s = snd (listFilesFromGoogleCloud env s)"
| "perform (LoadFile env fileId) s = snd (loadFromGoogleCloud env fileId s)"

definition session :: "operation list \<Rightarrow> state \<Rightarrow> state" where
  "session ops s = fold perform ops s"

fun env_of :: "operation \<Rightarrow> env" where
  "env_of (Save env elements binaryFiles) = env"
| "env_of (ListFiles env) = env"
| "env_of (LoadFile env fileId) = env"

fun authenticates :: "operation \<Rightarrow> bool" where
  "authenticates (Save env elements binaryFiles) = True"
| "authenticates (ListFiles env) = True"
| "authenticates (LoadFile env fileId) = False"

text \<open>
  Invariant reasoning over the pipelines: from a state satisfying \<open>I\<close>, the computation
  ends in a state satisfying \<open>I\<close> and every call it adds to the trace satisfies \<open>P\<close>.
  \<open>results I m\<close> are the values \<open>m\<close> can return from such a state.
\<close>

definition results :: "(state \<Rightarrow> bool) \<Rightarrow> 'a comp \<Rightarrow> 'a set" where
  "results I m = {a. \<exists>s. I s \<and> fst (m s) = Returned a}"

definition emits :: "(state \<Rightarrow> bool) \<Rightarrow> (call \<Rightarrow> bool) \<Rightarrow> 'a comp \<Rightarrow> bool" where
  "emits I P m =
     (\<forall>s. I s \<longrightarrow>
        I (snd (m s)) \<and> (\<exists>new. trace (snd (m s)) = trace s @ new \<and> list_all P new))"

subsection \<open>What the remote side did in one invocation\<close>

text \<open>The client library is usable after step 2: already initialised, or initialised now.\<close>

definition client_ready :: "env \<Rightarrow> state \<Rightarrow> bool" where
  "client_ready env s =
     (gapi s = DriveReady \<or> (gapi s = GapiLoaded \<and> gapi_init env = Resolves ()))"

definition init_calls :: "state \<Rightarrow> call list" where
  "init_calls s = (if gapi s = GapiLoaded then [GapiClientInit] else [])"

text \<open>The consent flow answers with a token and without an error.\<close>

definition auth_succeeds :: "env \<Rightarrow> bool" where
  "auth_succeeds env =
     (gis_present env \<and>
      (case auth env of
         AuthResponds r \<Rightarrow> \<not> truthy_str (error r) \<and> truthy_str (access_token r)
       | _ \<Rightarrow> False))"

definition granted_token :: "env \<Rightarrow> string" where
  "granted_token env =
     (case auth env of AuthResponds r \<Rightarrow> or_empty (access_token r) | _ \<Rightarrow> [])"

text \<open>The folder the search finds or the create call returns, if these calls succeed.\<close>

definition resolved_folder :: "env \<Rightarrow> string option" where
  "resolved_folder env =
     (case files_list env (folder_search_request folderName) of
        Resolves response \<Rightarrow>
          (case files response of
             Some (f # fs) \<Rightarrow> Some (file_id f)
           | _ \<Rightarrow>
             (case files_create env (folder_create_request folderName) of
                Resolves folderId \<Rightarrow> Some folderId
              | _ \<Rightarrow> None))
      | _ \<Rightarrow> None)"

text \<open>The search call rejects with \<open>e\<close>, or finds nothing and the create call rejects with \<open>e\<close>.\<close>

definition folder_step_fails :: "env \<Rightarrow> js_error \<Rightarrow> bool" where
  "folder_step_fails env e =
     (case files_list env (folder_search_request folderName) of
        Rejects x \<Rightarrow> x = e
      | Resolves response \<Rightarrow>
          (case files response of
             Some (f # fs) \<Rightarrow> False
           | _ \<Rightarrow> files_create env (folder_create_request folderName) = Rejects e)
      | NeverSettles \<Rightarrow> False)"

definition folder_calls :: "env \<Rightarrow> call list" where
  "folder_calls env =
     DriveFilesList (folder_search_request folderName) #
     (case files_list env (folder_search_request folderName) of
        Resolves response \<Rightarrow>
          (case files response of
             Some (f # fs) \<Rightarrow> []
           | _ \<Rightarrow> [DriveFilesCreate (folder_create_request folderName)])
      | _ \<Rightarrow> [])"

text \<open>The request save() sends for a document once the folder is known.\<close>

definition save_upload_request ::
  "env \<Rightarrow> json list \<Rightarrow> (string \<times> json) list \<Rightarrow> string \<Rightarrow> fetch_request" where
  "save_upload_request env elements binaryFiles folderId =
     upload_request (granted_token env) (stringify (save_data elements binaryFiles) 2)
       (generated_fileName env) folderId"

text \<open>The parsed body of a 2xx answer to that request, if folder and upload steps succeed.\<close>

definition uploaded_json :: "env \<Rightarrow> json list \<Rightarrow> (string \<times> json) list \<Rightarrow> json option" where
  "uploaded_json env elements binaryFiles =
     (case resolved_folder env of
        None \<Rightarrow> None
      | Some folderId \<Rightarrow>
          (case fetch env (save_upload_request env elements binaryFiles folderId) of
             Resolves response \<Rightarrow>
               (if ok response
                  then (case body_json response of Resolves j \<Rightarrow> Some j | _ \<Rightarrow> None)
                  else None)
           | _ \<Rightarrow> None))"

text \<open>The process state once steps 2 and 3 have succeeded and the token is stored.\<close>

definition after_auth :: "env \<Rightarrow> state \<Rightarrow> state" where
  "after_auth env s =
     s\<lparr>gapi := DriveReady,
       trace := trace s @ init_calls s @ [RequestAccessToken],
       accessToken := Some (granted_token env)\<rparr>"

definition saved_result :: "json \<Rightarrow> SaveToCloudResult" where
  "saved_result uploadResult =
     \<lparr>success = True,
      message = ''File saved successfully to Google Cloud!'',
      fileName = field ''name'' uploadResult\<rparr>"

subsection \<open>Timestamps\<close>

text \<open>
  \<^verbatim>\<open>Date.prototype.toISOString\<close> for years 0000 to 9999 yields the 24 characters
  \<^verbatim>\<open>YYYY-MM-DDTHH:mm:ss.sssZ\<close>. In a pattern, \<^verbatim>\<open>d\<close> stands for a decimal digit and every
  other character for itself.
\<close>

definition is_digit :: "char \<Rightarrow> bool" where
  "is_digit c = (c \<in> set ''0123456789'')"

fun conforms :: "string \<Rightarrow> string \<Rightarrow> bool" where
  "conforms [] [] = True"
| "conforms (p # ps) (c # cs) =
     ((if p = CHR ''d'' then is_digit c else c = p) \<and> conforms ps cs)"
| "conforms _ _ = False"

definition iso_wf :: "string \<Rightarrow> bool" where
  "iso_wf text = conforms ''dddd-dd-ddTdd:dd:dd.dddZ'' text"

subsection \<open>The Drive service answering files.list\<close>

text \<open>
  The remote store is outside the repository. Its \<^verbatim>\<open>files.list\<close> method, as the Drive v3
  reference describes the parameters the module sends: \<^verbatim>\<open>q\<close> selects, \<^verbatim>\<open>orderBy\<close> sorts,
  \<^verbatim>\<open>pageSize\<close> bounds the page (100 when omitted), \<^verbatim>\<open>fields\<close> projects.
\<close>

record remote_file =
  r_id :: string
  r_name :: string
  r_mimeType :: string
  r_parents :: "string list"
  r_trashed :: bool
  r_createdTime :: nat
  r_modifiedTime :: nat

fun matches :: "query \<Rightarrow> remote_file \<Rightarrow> bool" where
  "matches (NameMimeNotTrashed n m) r = (r_name r = n \<and> r_mimeType r = m \<and> \<not> r_trashed r)"
| "matches (InParentsNotTrashed p) r = (p \<in> set (r_parents r) \<and> \<not> r_trashed r)"

definition project :: "string \<Rightarrow> remote_file \<Rightarrow> file_resource" where
  "project selection r =
     \<lparr>file_id = r_id r,
      file_name = r_name r,
      createdTime = (if selection = ''files(id, name, createdTime, modifiedTime)''
                     then Some (r_createdTime r) else None),
      modifiedTime = (if selection = ''files(id, name, createdTime, modifiedTime)''
                      then Some (r_modifiedTime r) else None)\<rparr>"

definition order_by :: "string option \<Rightarrow> remote_file list \<Rightarrow> remote_file list" where
  "order_by ob rs = (if ob = Some ''modifiedTime desc'' then rev (sort_key r_modifiedTime rs) else rs)"

definition drive_files_list :: "remote_file list \<Rightarrow> list_request \<Rightarrow> list_response" where
  "drive_files_list store req =
     \<lparr>files = Some (map (project (req_fields req))
        (take (case req_pageSize req of Some n \<Rightarrow> n | None \<Rightarrow> 100)
           (order_by (req_orderBy req) (filter (matches (req_q req)) store))))\<rparr>"


section \<open>Concrete scenarios\<close>

text \<open>A document with one rectangle element, and a process that has not authenticated yet.\<close>

definition rectangle :: json where
  "rectangle =
     JObj [(''id'', JStr ''rect-1''), (''type'', JStr ''rectangle''),
           (''x'', JNum ''10''), (''y'', JNum ''20.5''),
           (''width'', JNum ''100''), (''height'', JNum ''50'')]"

definition fresh_state :: state where
  "fresh_state = \<lparr>accessToken = None, gapi = GapiLoaded, trace = []\<rparr>"

definition ok_response :: "json \<Rightarrow> http_response" where
  "ok_response j =
     \<lparr>ok = True, status = 200, statusText = ''OK'',
      body_text = Resolves [], body_json = Resolves j\<rparr>"

definition consent :: "string \<Rightarrow> auth_outcome" where
  "consent t = AuthResponds \<lparr>error = None, error_description = None, access_token = Some t\<rparr>"

text \<open>
  A remote side on which every step succeeds: no folder exists yet, the create call
  answers \<^verbatim>\<open>folder-1\<close>, and the upload answers with the stored file's id and name.
\<close>

definition echo_remote :: env where
  "echo_remote =
     \<lparr>now_iso = ''2024-05-06T07:08:09.123Z'',
      gapi_init = Resolves (),
      gis_present = True,
      auth = consent ''token-1'',
      files_list = (\<lambda>req. Resolves \<lparr>files = Some []\<rparr>),
      files_create = (\<lambda>req. Resolves ''folder-1''),
      fetch = (\<lambda>rq. Resolves (ok_response
        (JObj [(''id'', JStr ''file-1''),
               (''name'', JStr ''excalidraw-2024-05-06T07-08-09-123Z.excalidraw'')])))\<rparr>"

text \<open>The same, with an upload answer that carries the id only.\<close>

definition bare_remote :: env where
  "bare_remote =
     echo_remote\<lparr>fetch := (\<lambda>rq. Resolves (ok_response (JObj [(''id'', JStr ''file-1'')])))\<rparr>"

text \<open>The same, with a create call that gapi rejects with a response object.\<close>

definition denied_remote :: env where
  "denied_remote =
     echo_remote\<lparr>files_create :=
       (\<lambda>req. Rejects (JsObject None None None ''[object Object]''))\<rparr>"

text \<open>The same, with the folder already present; and a process that is already set up.\<close>

definition existing_folder_remote :: env where
  "existing_folder_remote =
     echo_remote\<lparr>files_list := (\<lambda>req. Resolves
       \<lparr>files = Some [\<lparr>file_id = ''folder-1'', file_name = ''excalidraw'',
                        createdTime = None, modifiedTime = None\<rparr>]\<rparr>)\<rparr>"

definition ready_state :: state where
  "ready_state = \<lparr>accessToken = Some ''token-0'', gapi = DriveReady, trace = []\<rparr>"

text \<open>The same as \<open>echo_remote\<close>, one millisecond later.\<close>

definition later_remote :: env where
  "later_remote = echo_remote\<lparr>now_iso := ''2024-05-06T07:08:09.124Z''\<rparr>"

text \<open>
  A Drive account: the well-known folder, two drawings in it, a trashed drawing in it,
  and a drawing elsewhere; and a remote side that answers \<^verbatim>\<open>files.list\<close> from it.
\<close>

definition example_store :: "remote_file list" where
  "example_store =
     [\<lparr>r_id = ''folder-1'', r_name = ''excalidraw'',
       r_mimeType = ''application/vnd.google-apps.folder'', r_parents = [''root''],
       r_trashed = False, r_createdTime = 1, r_modifiedTime = 1\<rparr>,
      \<lparr>r_id = ''a'', r_name = ''first.excalidraw'', r_mimeType = ''application/json'',
       r_parents = [''folder-1''], r_trashed = False, r_createdTime = 10,
       r_modifiedTime = 10\<rparr>,
      \<lparr>r_id = ''b'', r_name = ''second.excalidraw'', r_mimeType = ''application/json'',
       r_parents = [''folder-1''], r_trashed = False, r_createdTime = 20,
       r_modifiedTime = 30\<rparr>,
      \<lparr>r_id = ''c'', r_name = ''binned.excalidraw'', r_mimeType = ''application/json'',
       r_parents = [''folder-1''], r_trashed = True, r_createdTime = 25,
       r_modifiedTime = 40\<rparr>,
      \<lparr>r_id = ''d'', r_name = ''elsewhere.excalidraw'', r_mimeType = ''application/json'',
       r_parents = [''root''], r_trashed = False, r_createdTime = 5,
       r_modifiedTime = 50\<rparr>]"

definition drive_remote :: env where
  "drive_remote =
     echo_remote\<lparr>files_list := (\<lambda>req. Resolves (drive_files_list example_store req))\<rparr>"

section \<open>Sequencing and exception handling\<close>

lemmas comp_defs = js_return_def js_throw_def js_read_def js_call_def await_def andThen_def
  tryCatch_def assign_accessToken_def install_drive_def

lemma tryCatch_Thrown: "fst (m s) = Thrown e \<Longrightarrow> tryCatch m h s = h e (snd (m s))"
  by (cases "m s") (simp add: tryCatch_def)

lemma tryCatch_Returned: "fst (m s) = Returned a \<Longrightarrow> tryCatch m h s = m s"
  by (cases "m s") (simp add: tryCatch_def)

lemma tryCatch_Pending: "fst (m s) = Pending \<Longrightarrow> tryCatch m h s = m s"
  by (cases "m s") (simp add: tryCatch_def)

lemma andThen_Returned: "m s = (Returned a, s') \<Longrightarrow> andThen m k s = k a s'"
  by (simp add: andThen_def)

lemma andThen_Thrown: "m s = (Thrown e, s') \<Longrightarrow> andThen m k s = (Thrown e, s')"
  by (simp add: andThen_def)

lemma andThen_ReturnedD:
  "andThen m k s = (Returned b, s') \<Longrightarrow> \<exists>a s1. m s = (Returned a, s1) \<and> k a s1 = (Returned b, s')"
  by (cases "m s") (auto simp: andThen_def split: outcome.splits)

subsection \<open>Rules for invariants and emitted calls\<close>

lemma emits_return: "emits I P (js_return a)"
  by (simp add: emits_def js_return_def)

lemma emits_throw: "emits I P (js_throw e)"
  by (simp add: emits_def js_throw_def)

lemma emits_read: "emits I P (js_read f)"
  by (simp add: emits_def js_read_def)

lemma emits_await: "emits I P (await p)"
  by (simp add: emits_def await_def split: settled.splits)

lemma emits_call:
  "P c \<Longrightarrow> (\<And>s. I s \<Longrightarrow> I (s\<lparr>trace := trace s @ [c]\<rparr>)) \<Longrightarrow> emits I P (js_call c)"
  by (simp add: emits_def js_call_def)

lemma emits_assign:
  "(\<And>s. I s \<Longrightarrow> I (s\<lparr>accessToken := Some t\<rparr>)) \<Longrightarrow> emits I P (assign_accessToken t)"
  by (simp add: emits_def assign_accessToken_def)

lemma emits_install:
  "(\<And>s. I s \<Longrightarrow> I (s\<lparr>gapi := DriveReady\<rparr>)) \<Longrightarrow> emits I P install_drive"
  by (simp add: emits_def install_drive_def)

lemma emits_andThen:
  assumes m: "emits I P m" and k: "\<And>a. a \<in> results I m \<Longrightarrow> emits I P (k a)"
  shows "emits I P (andThen m k)"
  unfolding emits_def
proof (intro allI impI)
  fix s assume I: "I s"
  from m I obtain n1
    where 1: "I (snd (m s))" "trace (snd (m s)) = trace s @ n1" "list_all P n1"
    by (auto simp: emits_def)
  show "I (snd (andThen m k s)) \<and>
        (\<exists>new. trace (snd (andThen m k s)) = trace s @ new \<and> list_all P new)"
  proof (cases "fst (m s)")
    case (Returned a)
    then have "a \<in> results I m" using I by (auto simp: results_def)
    from k[OF this] 1(1) obtain n2
      where 2: "I (snd (k a (snd (m s))))"
        "trace (snd (k a (snd (m s)))) = trace (snd (m s)) @ n2" "list_all P n2"
      by (auto simp: emits_def)
    have "andThen m k s = k a (snd (m s))"
      using Returned by (cases "m s") (simp add: andThen_def)
    with 1 2 show ?thesis by simp
  next
    case (Thrown e)
    then have "andThen m k s = (Thrown e, snd (m s))"
      by (cases "m s") (simp add: andThen_def)
    with 1 show ?thesis by simp
  next
    case Pending
    then have "andThen m k s = (Pending, snd (m s))"
      by (cases "m s") (simp add: andThen_def)
    with 1 show ?thesis by simp
  qed
qed

lemma emits_tryCatch:
  assumes m: "emits I P m" and h: "\<And>e. emits I P (h e)"
  shows "emits I P (tryCatch m h)"
  unfolding emits_def
proof (intro allI impI)
  fix s assume I: "I s"
  from m I obtain n1
    where 1: "I (snd (m s))" "trace (snd (m s)) = trace s @ n1" "list_all P n1"
    by (auto simp: emits_def)
  show "I (snd (tryCatch m h s)) \<and>
        (\<exists>new. trace (snd (tryCatch m h s)) = trace s @ new \<and> list_all P new)"
  proof (cases "fst (m s)")
    case (Thrown e)
    from h[of e] 1(1) obtain n2
      where 2: "I (snd (h e (snd (m s))))"
        "trace (snd (h e (snd (m s)))) = trace (snd (m s)) @ n2" "list_all P n2"
      by (auto simp: emits_def)
    have "tryCatch m h s = h e (snd (m s))"
      using Thrown by (rule tryCatch_Thrown)
    with 1 2 show ?thesis by simp
  next
    case (Returned a)
    then have "tryCatch m h s = m s" by (rule tryCatch_Returned)
    with 1 show ?thesis by auto
  next
    case Pending
    then have "tryCatch m h s = m s" by (rule tryCatch_Pending)
    with 1 show ?thesis by auto
  qed
qed

lemma emits_if:
  "(c \<Longrightarrow> emits I P m1) \<Longrightarrow> (\<not> c \<Longrightarrow> emits I P m2) \<Longrightarrow> emits I P (if c then m1 else m2)"
  by simp

lemma emits_case_auth:
  "(\<And>e. x = AuthThrows e \<Longrightarrow> emits I P (f e)) \<Longrightarrow>
   (\<And>r. x = AuthResponds r \<Longrightarrow> emits I P (g r)) \<Longrightarrow>
   (x = AuthSilent \<Longrightarrow> emits I P h) \<Longrightarrow>
   emits I P (case x of AuthThrows e \<Rightarrow> f e | AuthResponds r \<Rightarrow> g r | AuthSilent \<Rightarrow> h)"
  by (cases x) simp_all

lemma emits_case_option:
  "(x = None \<Longrightarrow> emits I P f) \<Longrightarrow> (\<And>a. x = Some a \<Longrightarrow> emits I P (g a)) \<Longrightarrow>
   emits I P (case x of None \<Rightarrow> f | Some a \<Rightarrow> g a)"
  by (cases x) simp_all

lemma emits_case_list:
  "(x = [] \<Longrightarrow> emits I P f) \<Longrightarrow> (\<And>a as. x = a # as \<Longrightarrow> emits I P (g a as)) \<Longrightarrow>
   emits I P (case x of [] \<Rightarrow> f | a # as \<Rightarrow> g a as)"
  by (cases x) simp_all

lemma emits_name_of_result: "emits I P (name_of_result j)"
  by (cases j) (simp_all add: name_of_result_def emits_return emits_throw)

lemmas emits_rules = emits_return emits_throw emits_read emits_await emits_call emits_assign
  emits_install emits_andThen emits_tryCatch emits_if emits_case_auth emits_case_option
  emits_case_list emits_name_of_result

lemma emitsD:
  "emits I P m \<Longrightarrow> I s \<Longrightarrow> I (snd (m s)) \<and> list_all P (new_calls s (snd (m s)))"
  by (auto simp: emits_def new_calls_def)

lemma results_read: "v \<in> results I (js_read f) \<Longrightarrow> \<exists>s. I s \<and> f s = v"
  by (auto simp: results_def js_read_def)

section \<open>The four steps\<close>

lemma truthy_str_Some [simp]: "truthy_str (Some t) = (t \<noteq> [])"
  by (simp add: truthy_str_def)

lemma truthy_str_None [simp]: "\<not> truthy_str None"
  by (simp add: truthy_str_def)

lemma or_empty_Some [simp]: "or_empty (Some t) = t"
  by (simp add: or_empty_def)

lemma message_or_new_Error [simp]: "m \<noteq> [] \<Longrightarrow> message_or (new_Error m) d = m"
  by (simp add: message_or_def new_Error_def)

lemma loadGoogleDriveAPI_ready:
  "client_ready env s \<Longrightarrow>
   loadGoogleDriveAPI env s =
     (Returned (), s\<lparr>gapi := DriveReady, trace := trace s @ init_calls s\<rparr>)"
  by (cases s) (auto simp: client_ready_def init_calls_def loadGoogleDriveAPI_def comp_defs)

lemma loadGoogleDriveAPI_ReturnedD:
  "loadGoogleDriveAPI env s = (Returned u, s1) \<Longrightarrow>
   client_ready env s \<and> s1 = s\<lparr>gapi := DriveReady, trace := trace s @ init_calls s\<rparr>"
  by (cases s; cases "gapi s"; cases "gapi_init env")
     (auto simp: client_ready_def init_calls_def loadGoogleDriveAPI_def comp_defs
           split: if_splits)

lemma authenticateGoogleUser_succeeds:
  "auth_succeeds env \<Longrightarrow>
   authenticateGoogleUser env s =
     (Returned (Some (granted_token env)), s\<lparr>trace := trace s @ [RequestAccessToken]\<rparr>)
   \<and> granted_token env \<noteq> []"
  by (cases "auth env")
     (auto simp: auth_succeeds_def granted_token_def authenticateGoogleUser_def comp_defs
             truthy_str_def or_empty_def split: option.splits)

lemma authenticateGoogleUser_ReturnedD:
  "authenticateGoogleUser env s = (Returned token, s1) \<Longrightarrow> truthy_str token \<Longrightarrow>
   auth_succeeds env \<and> token = Some (granted_token env)
   \<and> s1 = s\<lparr>trace := trace s @ [RequestAccessToken]\<rparr>"
  by (cases "auth env")
     (auto simp: auth_succeeds_def granted_token_def authenticateGoogleUser_def comp_defs
             truthy_str_def or_empty_def split: option.splits if_splits)

lemma getOrCreateFolder_resolves:
  "gapi s = DriveReady \<Longrightarrow> resolved_folder env = Some folderId \<Longrightarrow>
   getOrCreateFolder env folderName s =
     (Returned folderId, s\<lparr>trace := trace s @ folder_calls env\<rparr>)"
  by (auto simp: resolved_folder_def folder_calls_def getOrCreateFolder_def comp_defs
           split: settled.splits option.splits list.splits)

lemma getOrCreateFolder_fails:
  "gapi s = DriveReady \<Longrightarrow> folder_step_fails env e \<Longrightarrow>
   getOrCreateFolder env folderName s =
     (Thrown (new_Error (''Folder operation failed: '' @ message_or_self e)),
      s\<lparr>trace := trace s @ folder_calls env\<rparr>)"
  by (auto simp: folder_step_fails_def folder_calls_def getOrCreateFolder_def comp_defs
           split: settled.splits option.splits list.splits)

lemma getOrCreateFolder_ReturnedD:
  "getOrCreateFolder env folderName s = (Returned folderId, s1) \<Longrightarrow>
   gapi s = DriveReady \<and> resolved_folder env = Some folderId
   \<and> s1 = s\<lparr>trace := trace s @ folder_calls env\<rparr>"
  by (auto simp: resolved_folder_def folder_calls_def getOrCreateFolder_def comp_defs
           split: settled.splits option.splits list.splits if_splits)

lemma uploadToGoogleDrive_stores:
  "accessToken s = Some t \<Longrightarrow> t \<noteq> [] \<Longrightarrow>
   fetch env (upload_request t file name folderId) = Resolves response \<Longrightarrow>
   ok response \<Longrightarrow> body_json response = Resolves j \<Longrightarrow>
   uploadToGoogleDrive env file name folderId s =
     (Returned j, s\<lparr>trace := trace s @ [Fetch (upload_request t file name folderId)]\<rparr>)"
  by (simp add: uploadToGoogleDrive_def comp_defs)

lemma uploadToGoogleDrive_ReturnedD:
  "uploadToGoogleDrive env file name folderId s = (Returned j, s1) \<Longrightarrow>
   \<exists>t response. accessToken s = Some t \<and> t \<noteq> []
     \<and> fetch env (upload_request t file name folderId) = Resolves response
     \<and> ok response \<and> body_json response = Resolves j
     \<and> s1 = s\<lparr>trace := trace s @ [Fetch (upload_request t file name folderId)]\<rparr>"
  by (cases "accessToken s")
     (auto simp: uploadToGoogleDrive_def comp_defs split: settled.splits if_splits)

section \<open>The pipelines of save and list\<close>

lemma client_ready_not_absent: "client_ready env s \<Longrightarrow> gapi s \<noteq> GapiAbsent"
  by (auto simp: client_ready_def)

lemma save_body_after_auth:
  assumes "client_ready env s" and "auth_succeeds env"
  shows "save_body env elements binaryFiles s =
     andThen (getOrCreateFolder env folderName) (\<lambda>folderId.
       andThen (uploadToGoogleDrive env (stringify (save_data elements binaryFiles) 2)
                  (generated_fileName env) folderId) (\<lambda>uploadResult.
       andThen (name_of_result uploadResult) (\<lambda>name.
         js_return \<lparr>success = True,
                    message = ''File saved successfully to Google Cloud!'',
                    fileName = name\<rparr>)))
       (after_auth env s)"
  using assms client_ready_not_absent [OF assms(1)]
  by (simp add: save_body_def andThen_def js_read_def assign_accessToken_def
        loadGoogleDriveAPI_ready authenticateGoogleUser_succeeds after_auth_def)

lemma list_body_after_auth:
  assumes "client_ready env s" and "auth_succeeds env"
  shows "list_body env s =
     andThen (getOrCreateFolder env folderName) (\<lambda>folderId.
       andThen (js_call (DriveFilesList (file_listing_request folderId))) (\<lambda>_.
       andThen (await (files_list env (file_listing_request folderId))) (\<lambda>response.
         js_return (case files response of Some fs \<Rightarrow> fs | None \<Rightarrow> []))))
       (after_auth env s)"
  using assms
  by (simp add: list_body_def andThen_def js_read_def assign_accessToken_def
        loadGoogleDriveAPI_ready authenticateGoogleUser_succeeds after_auth_def)

lemma gapi_after_auth [simp]: "gapi (after_auth env s) = DriveReady"
  by (simp add: after_auth_def)

lemma accessToken_after_auth [simp]: "accessToken (after_auth env s) = Some (granted_token env)"
  by (simp add: after_auth_def)

lemma trace_after_auth:
  "trace (after_auth env s) = trace s @ init_calls s @ [RequestAccessToken]"
  by (simp add: after_auth_def)

lemma save_body_folder_fails:
  assumes "client_ready env s" and "auth_succeeds env" and "folder_step_fails env e"
  shows "save_body env elements binaryFiles s =
     (Thrown (new_Error (''Folder operation failed: '' @ message_or_self e)),
      (after_auth env s)\<lparr>trace := trace (after_auth env s) @ folder_calls env\<rparr>)"
  by (simp add: save_body_after_auth [OF assms(1,2)] andThen_Thrown
        getOrCreateFolder_fails [OF _ assms(3)])

lemma list_body_folder_fails:
  assumes "client_ready env s" and "auth_succeeds env" and "folder_step_fails env e"
  shows "list_body env s =
     (Thrown (new_Error (''Folder operation failed: '' @ message_or_self e)),
      (after_auth env s)\<lparr>trace := trace (after_auth env s) @ folder_calls env\<rparr>)"
  by (simp add: list_body_after_auth [OF assms(1,2)] andThen_Thrown
        getOrCreateFolder_fails [OF _ assms(3)])

lemma uploaded_jsonD:
  "uploaded_json env elements binaryFiles = Some j \<Longrightarrow>
   \<exists>folderId response. resolved_folder env = Some folderId
     \<and> fetch env (save_upload_request env elements binaryFiles folderId) = Resolves response
     \<and> ok response \<and> body_json response = Resolves j"
  by (auto simp: uploaded_json_def split: option.splits settled.splits if_splits)

lemma name_of_result_value:
  "j \<noteq> JNull \<Longrightarrow> name_of_result j s = (Returned (field ''name'' j), s)"
  by (cases j) (simp_all add: name_of_result_def js_return_def)

lemma name_of_result_ReturnedD:
  "name_of_result j s = (Returned n, s') \<Longrightarrow> j \<noteq> JNull \<and> n = field ''name'' j \<and> s' = s"
  by (cases j) (auto simp: name_of_result_def js_return_def js_throw_def)

lemma save_body_succeeds:
  assumes ready: "client_ready env s" and auth: "auth_succeeds env"
    and folder: "resolved_folder env = Some folderId"
    and up: "fetch env (save_upload_request env elements binaryFiles folderId) = Resolves response"
    and ok: "ok response" and body: "body_json response = Resolves j" and j: "j \<noteq> JNull"
  shows "save_body env elements binaryFiles s =
     (Returned (saved_result j),
      (after_auth env s)\<lparr>trace := trace (after_auth env s) @ folder_calls env
         @ [Fetch (save_upload_request env elements binaryFiles folderId)]\<rparr>)"
proof -
  let ?s2 = "after_auth env s"
  let ?s3 = "?s2\<lparr>trace := trace ?s2 @ folder_calls env\<rparr>"
  have token: "granted_token env \<noteq> []"
    using authenticateGoogleUser_succeeds [OF auth] by simp
  have f: "getOrCreateFolder env folderName ?s2 = (Returned folderId, ?s3)"
    by (rule getOrCreateFolder_resolves [OF _ folder]) simp
  have u: "uploadToGoogleDrive env (stringify (save_data elements binaryFiles) 2)
             (generated_fileName env) folderId ?s3 =
           (Returned j, ?s3\<lparr>trace := trace ?s3
              @ [Fetch (save_upload_request env elements binaryFiles folderId)]\<rparr>)"
    unfolding save_upload_request_def
    by (rule uploadToGoogleDrive_stores [OF _ token up [unfolded save_upload_request_def] ok body])
       simp
  show ?thesis
    by (simp add: save_body_after_auth [OF ready auth] andThen_def f u
          name_of_result_value [OF j] js_return_def saved_result_def)
qed

lemma save_body_ReturnedD:
  assumes "save_body env elements binaryFiles s = (Returned r, s')"
  shows "client_ready env s \<and> auth_succeeds env \<and>
    (\<exists>folderId j. resolved_folder env = Some folderId
       \<and> uploaded_json env elements binaryFiles = Some j \<and> j \<noteq> JNull
       \<and> r = saved_result j
       \<and> s' = (after_auth env s)\<lparr>trace := trace (after_auth env s) @ folder_calls env
            @ [Fetch (save_upload_request env elements binaryFiles folderId)]\<rparr>)"
proof -
  from assms have absent: "gapi s \<noteq> GapiAbsent"
    by (auto simp: save_body_def andThen_def js_read_def js_throw_def split: if_splits)
  with assms obtain u s1 where
    load: "loadGoogleDriveAPI env s = (Returned u, s1)" and
    rest1: "andThen (authenticateGoogleUser env) (\<lambda>token.
           if \<not> truthy_str token
             then js_throw (new_Error ''Google authentication failed or was cancelled.'')
           else
             andThen (assign_accessToken (or_empty token)) (\<lambda>_.
             andThen (getOrCreateFolder env folderName) (\<lambda>folderId.
             andThen (uploadToGoogleDrive env
                        (stringify (save_data elements binaryFiles) 2)
                        (generated_fileName env) folderId) (\<lambda>uploadResult.
             andThen (name_of_result uploadResult) (\<lambda>name.
               js_return \<lparr>success = True,
                          message = ''File saved successfully to Google Cloud!'',
                          fileName = name\<rparr>))))) s1 = (Returned r, s')"
    by (auto simp: save_body_def js_read_def andThen_Returned dest!: andThen_ReturnedD)
  from loadGoogleDriveAPI_ReturnedD [OF load]
  have ready: "client_ready env s"
    and s1: "s1 = s\<lparr>gapi := DriveReady, trace := trace s @ init_calls s\<rparr>"
    by simp_all
  from andThen_ReturnedD [OF rest1] obtain token s2 where
    au: "authenticateGoogleUser env s1 = (Returned token, s2)" and
    rest2: "(if \<not> truthy_str token
             then js_throw (new_Error ''Google authentication failed or was cancelled.'')
           else
             andThen (assign_accessToken (or_empty token)) (\<lambda>_.
             andThen (getOrCreateFolder env folderName) (\<lambda>folderId.
             andThen (uploadToGoogleDrive env
                        (stringify (save_data elements binaryFiles) 2)
                        (generated_fileName env) folderId) (\<lambda>uploadResult.
             andThen (name_of_result uploadResult) (\<lambda>name.
               js_return \<lparr>success = True,
                          message = ''File saved successfully to Google Cloud!'',
                          fileName = name\<rparr>))))) s2 = (Returned r, s')"
    by blast
  from rest2 have truthy: "truthy_str token"
    by (auto simp: js_throw_def split: if_splits)
  from authenticateGoogleUser_ReturnedD [OF au truthy]
  have auth: "auth_succeeds env" and tok: "token = Some (granted_token env)"
    and s2: "s2 = s1\<lparr>trace := trace s1 @ [RequestAccessToken]\<rparr>"
    by simp_all
  have body: "save_body env elements binaryFiles s =
     andThen (getOrCreateFolder env folderName) (\<lambda>folderId.
       andThen (uploadToGoogleDrive env (stringify (save_data elements binaryFiles) 2)
                  (generated_fileName env) folderId) (\<lambda>uploadResult.
       andThen (name_of_result uploadResult) (\<lambda>name.
         js_return \<lparr>success = True,
                    message = ''File saved successfully to Google Cloud!'',
                    fileName = name\<rparr>)))
       (after_auth env s)"
    by (rule save_body_after_auth [OF ready auth])
  from assms [unfolded body] obtain folderId s3 where
    fo: "getOrCreateFolder env folderName (after_auth env s) = (Returned folderId, s3)" and
    rest3: "andThen (uploadToGoogleDrive env (stringify (save_data elements binaryFiles) 2)
                  (generated_fileName env) folderId) (\<lambda>uploadResult.
       andThen (name_of_result uploadResult) (\<lambda>name.
         js_return \<lparr>success = True,
                    message = ''File saved successfully to Google Cloud!'',
                    fileName = name\<rparr>)) s3 = (Returned r, s')"
    by (blast dest: andThen_ReturnedD)
  from getOrCreateFolder_ReturnedD [OF fo]
  have folder: "resolved_folder env = Some folderId"
    and s3: "s3 = (after_auth env s)\<lparr>trace := trace (after_auth env s) @ folder_calls env\<rparr>"
    by simp_all
  from andThen_ReturnedD [OF rest3] obtain j s4 where
    up: "uploadToGoogleDrive env (stringify (save_data elements binaryFiles) 2)
           (generated_fileName env) folderId s3 = (Returned j, s4)" and
    rest4: "andThen (name_of_result j) (\<lambda>name.
         js_return \<lparr>success = True,
                    message = ''File saved successfully to Google Cloud!'',
                    fileName = name\<rparr>) s4 = (Returned r, s')"
    by blast
  from uploadToGoogleDrive_ReturnedD [OF up] obtain t response where
    t: "accessToken s3 = Some t" and
    fe: "fetch env (upload_request t (stringify (save_data elements binaryFiles) 2)
           (generated_fileName env) folderId) = Resolves response" and
    ok: "ok response" and bj: "body_json response = Resolves j" and
    s4: "s4 = s3\<lparr>trace := trace s3 @ [Fetch (upload_request t
           (stringify (save_data elements binaryFiles) 2) (generated_fileName env) folderId)]\<rparr>"
    by blast
  from t s3 have t_eq: "t = granted_token env" by simp
  from andThen_ReturnedD [OF rest4] obtain n s5 where
    nm: "name_of_result j s4 = (Returned n, s5)" and
    fin: "js_return \<lparr>success = True,
                    message = ''File saved successfully to Google Cloud!'',
                    fileName = n\<rparr> s5 = (Returned r, s')"
    by blast
  from name_of_result_ReturnedD [OF nm] have j: "j \<noteq> JNull" and n: "n = field ''name'' j"
    and s5: "s5 = s4" by simp_all
  from fin n have r: "r = saved_result j" and s': "s' = s5"
    by (auto simp: js_return_def saved_result_def)
  have uj: "uploaded_json env elements binaryFiles = Some j"
    using folder fe ok bj by (simp add: uploaded_json_def save_upload_request_def t_eq)
  show ?thesis
    using ready auth folder uj j r s' s5 s4 s3
    by (simp add: save_upload_request_def t_eq)
qed

lemma save_success_from_body:
  assumes "fst (saveToGoogleCloud env elements binaryFiles s) = Returned r" and "success r"
  shows "save_body env elements binaryFiles s =
           (Returned r, snd (saveToGoogleCloud env elements binaryFiles s))"
proof (cases "fst (save_body env elements binaryFiles s)")
  case (Returned r')
  then have "saveToGoogleCloud env elements binaryFiles s = save_body env elements binaryFiles s"
    by (simp add: saveToGoogleCloud_def tryCatch_Returned)
  with assms(1) show ?thesis
    by (cases "save_body env elements binaryFiles s") simp
next
  case (Thrown e)
  with assms show ?thesis
    by (auto simp: saveToGoogleCloud_def tryCatch_Thrown js_return_def)
next
  case Pending
  with assms show ?thesis
    by (simp add: saveToGoogleCloud_def tryCatch_Pending)
qed

lemma save_body_returns_success:
  "fst (save_body env elements binaryFiles s) = Returned r \<Longrightarrow> success r"
  by (cases "save_body env elements binaryFiles s")
     (auto dest!: save_body_ReturnedD simp: saved_result_def)

lemma client_ready_fresh [simp]: "client_ready echo_remote fresh_state"
  by (simp add: client_ready_def echo_remote_def fresh_state_def)

lemma auth_succeeds_echo [simp]: "auth_succeeds echo_remote"
  by (simp add: auth_succeeds_def echo_remote_def consent_def)

lemma client_ready_bare [simp]: "client_ready bare_remote fresh_state"
  by (simp add: client_ready_def bare_remote_def echo_remote_def fresh_state_def)

lemma auth_succeeds_bare [simp]: "auth_succeeds bare_remote"
  by (simp add: auth_succeeds_def bare_remote_def echo_remote_def consent_def)

lemma client_ready_denied [simp]: "client_ready denied_remote fresh_state"
  by (simp add: client_ready_def denied_remote_def echo_remote_def fresh_state_def)

lemma auth_succeeds_denied [simp]: "auth_succeeds denied_remote"
  by (simp add: auth_succeeds_def denied_remote_def echo_remote_def consent_def)

lemma resolved_folder_echo [simp]: "resolved_folder echo_remote = Some ''folder-1''"
  by (simp add: resolved_folder_def echo_remote_def)

lemma resolved_folder_bare [simp]: "resolved_folder bare_remote = Some ''folder-1''"
  by (simp add: resolved_folder_def bare_remote_def echo_remote_def)

lemma uploaded_json_echo [simp]:
  "uploaded_json echo_remote elements binaryFiles =
     Some (JObj [(''id'', JStr ''file-1''),
                 (''name'', JStr ''excalidraw-2024-05-06T07-08-09-123Z.excalidraw'')])"
  by (simp add: uploaded_json_def) (simp add: echo_remote_def ok_response_def)

lemma uploaded_json_bare [simp]:
  "uploaded_json bare_remote elements binaryFiles = Some (JObj [(''id'', JStr ''file-1'')])"
  by (simp add: uploaded_json_def) (simp add: bare_remote_def echo_remote_def ok_response_def)

lemma generated_fileName_echo [simp]:
  "generated_fileName echo_remote = ''excalidraw-2024-05-06T07-08-09-123Z.excalidraw''"
  by (simp add: generated_fileName_def replace_colon_dot_def echo_remote_def)

lemma generated_fileName_bare [simp]:
  "generated_fileName bare_remote = ''excalidraw-2024-05-06T07-08-09-123Z.excalidraw''"
  by (simp add: generated_fileName_def replace_colon_dot_def bare_remote_def echo_remote_def)

lemma folder_step_fails_denied [simp]:
  "folder_step_fails denied_remote (JsObject None None None ''[object Object]'')"
  by (simp add: folder_step_fails_def denied_remote_def echo_remote_def)

section \<open>Invariants of whole operations and sessions\<close>

lemma emits_authenticate:
  assumes "P RequestAccessToken" and "\<And>s c. I s \<Longrightarrow> I (s\<lparr>trace := trace s @ [c]\<rparr>)"
  shows "emits I P (authenticateGoogleUser env)"
  unfolding authenticateGoogleUser_def
  by (intro emits_rules) (simp_all add: assms)

lemma results_authenticate:
  "token \<in> results I (authenticateGoogleUser env) \<Longrightarrow> truthy_str token \<Longrightarrow>
   auth_succeeds env \<and> token = Some (granted_token env) \<and> granted_token env \<noteq> []"
proof -
  assume "token \<in> results I (authenticateGoogleUser env)" and t: "truthy_str token"
  then obtain s where "fst (authenticateGoogleUser env s) = Returned token"
    by (auto simp: results_def)
  then have "authenticateGoogleUser env s = (Returned token, snd (authenticateGoogleUser env s))"
    by (cases "authenticateGoogleUser env s") simp
  from authenticateGoogleUser_ReturnedD [OF this t] t show ?thesis
    by auto
qed

lemmas pipeline_defs = saveToGoogleCloud_def save_body_def listFilesFromGoogleCloud_def
  list_body_def loadFromGoogleCloud_def load_body_def loadGoogleDriveAPI_def
  getOrCreateFolder_def uploadToGoogleDrive_def

lemma session_Nil [simp]: "session [] s = s"
  by (simp add: session_def)

lemma session_Cons [simp]: "session (op # ops) s = session ops (perform op s)"
  by (simp add: session_def)

lemma session_invariant:
  assumes step: "\<And>op s. I s \<Longrightarrow>
      I (perform op s) \<and> (\<exists>new. trace (perform op s) = trace s @ new \<and> list_all P new)"
    and "I s"
  shows "I (session ops s) \<and> (\<exists>new. trace (session ops s) = trace s @ new \<and> list_all P new)"
  using \<open>I s\<close>
proof (induction ops arbitrary: s)
  case Nil
  then show ?case by simp
next
  case (Cons op ops)
  from step [OF Cons.prems] obtain n1
    where 1: "I (perform op s)" "trace (perform op s) = trace s @ n1" "list_all P n1"
    by blast
  from Cons.IH [OF 1(1)] obtain n2
    where 2: "I (session ops (perform op s))"
      "trace (session ops (perform op s)) = trace (perform op s) @ n2" "list_all P n2"
    by blast
  from 1 2 show ?case by simp
qed

lemma emits_perform:
  assumes "\<And>env elements binaryFiles. emits I P (saveToGoogleCloud env elements binaryFiles)"
    and "\<And>env. emits I P (listFilesFromGoogleCloud env)"
    and "\<And>env fileId. emits I P (loadFromGoogleCloud env fileId)"
    and "I s"
  shows "I (perform op s) \<and> (\<exists>new. trace (perform op s) = trace s @ new \<and> list_all P new)"
  using assms by (cases op) (simp_all add: emits_def)

subsection \<open>Once the Drive client is there, nothing initialises it again\<close>

lemma save_keeps_drive:
  "emits (\<lambda>s. gapi s = DriveReady) (\<lambda>c. c \<noteq> GapiClientInit)
     (saveToGoogleCloud env elements binaryFiles)"
  unfolding pipeline_defs
  by (intro emits_rules emits_authenticate) (auto dest!: results_read)

lemma list_keeps_drive:
  "emits (\<lambda>s. gapi s = DriveReady) (\<lambda>c. c \<noteq> GapiClientInit) (listFilesFromGoogleCloud env)"
  unfolding pipeline_defs
  by (intro emits_rules emits_authenticate) (auto dest!: results_read)

lemma load_keeps_drive:
  "emits (\<lambda>s. gapi s = DriveReady) (\<lambda>c. c \<noteq> GapiClientInit) (loadFromGoogleCloud env fileId)"
  unfolding pipeline_defs
  by (intro emits_rules emits_authenticate) (auto dest!: results_read)

subsection \<open>The token slot\<close>

lemma loadGoogleDriveAPI_token:
  "accessToken (snd (loadGoogleDriveAPI env s)) = accessToken s"
  by (simp add: loadGoogleDriveAPI_def comp_defs split: settled.splits)

lemma authenticateGoogleUser_token:
  "accessToken (snd (authenticateGoogleUser env s)) = accessToken s"
  by (simp add: authenticateGoogleUser_def comp_defs split: auth_outcome.splits)

lemma getOrCreateFolder_token:
  "accessToken (snd (getOrCreateFolder env name s)) = accessToken s"
  by (simp add: getOrCreateFolder_def comp_defs
        split: settled.splits list.splits option.splits)

lemma uploadToGoogleDrive_token:
  "accessToken (snd (uploadToGoogleDrive env file name folderId s)) = accessToken s"
  by (simp add: uploadToGoogleDrive_def comp_defs split: settled.splits)

lemma save_token:
  "emits (\<lambda>s. accessToken s = old \<or>
            (auth_succeeds env \<and> granted_token env \<noteq> []
             \<and> accessToken s = Some (granted_token env)))
     (\<lambda>c. True) (saveToGoogleCloud env elements binaryFiles)"
  unfolding pipeline_defs
  by (intro emits_rules emits_authenticate) (auto dest!: results_authenticate)

lemma list_token:
  "emits (\<lambda>s. accessToken s = old \<or>
            (auth_succeeds env \<and> granted_token env \<noteq> []
             \<and> accessToken s = Some (granted_token env)))
     (\<lambda>c. True) (listFilesFromGoogleCloud env)"
  unfolding pipeline_defs
  by (intro emits_rules emits_authenticate) (auto dest!: results_authenticate)

lemma load_token:
  "emits (\<lambda>s. accessToken s = old) (\<lambda>c. True) (loadFromGoogleCloud env fileId)"
  unfolding pipeline_defs
  by (intro emits_rules) auto

lemma save_token_kept:
  "emits (\<lambda>s. accessToken s \<noteq> None) (\<lambda>c. True) (saveToGoogleCloud env elements binaryFiles)"
  unfolding pipeline_defs
  by (intro emits_rules emits_authenticate) auto

lemma list_token_kept:
  "emits (\<lambda>s. accessToken s \<noteq> None) (\<lambda>c. True) (listFilesFromGoogleCloud env)"
  unfolding pipeline_defs
  by (intro emits_rules emits_authenticate) auto

lemma load_token_kept:
  "emits (\<lambda>s. accessToken s \<noteq> None) (\<lambda>c. True) (loadFromGoogleCloud env fileId)"
  unfolding pipeline_defs
  by (intro emits_rules) auto

lemma perform_token:
  "accessToken (perform op s) = accessToken s \<or>
   (authenticates op \<and> auth_succeeds (env_of op) \<and> granted_token (env_of op) \<noteq> []
    \<and> accessToken (perform op s) = Some (granted_token (env_of op)))"
proof (cases op)
  case (Save env elements binaryFiles)
  from emitsD [OF save_token [of "accessToken s" env elements binaryFiles], of s]
  show ?thesis using Save by auto
next
  case (ListFiles env)
  from emitsD [OF list_token [of "accessToken s" env], of s]
  show ?thesis using ListFiles by auto
next
  case (LoadFile env fileId)
  from emitsD [OF load_token [of "accessToken s" env fileId], of s]
  show ?thesis using LoadFile by auto
qed

subsection \<open>What save() uploads\<close>

lemma save_uploads_document:
  "emits (\<lambda>s. True)
     (\<lambda>c. \<forall>rq. c = Fetch rq \<longrightarrow>
        (\<exists>token folderId. rq = upload_request token
           (stringify (save_data elements binaryFiles) 2) (generated_fileName env) folderId))
     (saveToGoogleCloud env elements binaryFiles)"
  unfolding pipeline_defs
  by (intro emits_rules emits_authenticate) auto

lemma save_succeeds:
  assumes "client_ready env s" and "auth_succeeds env"
    and "resolved_folder env = Some folderId"
    and "fetch env (save_upload_request env elements binaryFiles folderId) = Resolves response"
    and "ok response" and "body_json response = Resolves j" and "j \<noteq> JNull"
  shows "saveToGoogleCloud env elements binaryFiles s =
     (Returned (saved_result j),
      (after_auth env s)\<lparr>trace := trace (after_auth env s) @ folder_calls env
         @ [Fetch (save_upload_request env elements binaryFiles folderId)]\<rparr>)"
  by (simp add: saveToGoogleCloud_def tryCatch_Returned save_body_succeeds [OF assms])

lemma save_succeeds_calls:
  assumes "client_ready env s" and "auth_succeeds env"
    and "resolved_folder env = Some folderId"
    and "fetch env (save_upload_request env elements binaryFiles folderId) = Resolves response"
    and "ok response" and "body_json response = Resolves j" and "j \<noteq> JNull"
  shows "new_calls s (snd (saveToGoogleCloud env elements binaryFiles s)) =
     init_calls s @ [RequestAccessToken] @ folder_calls env
       @ [Fetch (save_upload_request env elements binaryFiles folderId)]"
  by (simp add: save_succeeds [OF assms] new_calls_def trace_after_auth)

lemma fetch_echo [simp]:
  "fetch echo_remote rq =
     Resolves (ok_response (JObj [(''id'', JStr ''file-1''),
       (''name'', JStr ''excalidraw-2024-05-06T07-08-09-123Z.excalidraw'')]))"
  by (simp add: echo_remote_def)

lemma ok_response_simps [simp]:
  "ok (ok_response j)" "body_json (ok_response j) = Resolves j"
  by (simp_all add: ok_response_def)

lemma trace_fresh: "trace fresh_state = []"
  by (simp add: fresh_state_def)

lemma init_calls_fresh [simp]: "init_calls fresh_state = [GapiClientInit]"
  by (simp add: init_calls_def fresh_state_def)

lemma init_calls_ready [simp]: "init_calls ready_state = []"
  by (simp add: init_calls_def ready_state_def)

lemma folder_calls_echo [simp]:
  "folder_calls echo_remote =
     [DriveFilesList (folder_search_request ''excalidraw''),
      DriveFilesCreate (folder_create_request ''excalidraw'')]"
  by (simp add: folder_calls_def echo_remote_def folderName_def)

lemma list_body_succeeds:
  assumes ready: "client_ready env s" and auth: "auth_succeeds env"
    and folder: "resolved_folder env = Some folderId"
    and li: "files_list env (file_listing_request folderId) = Resolves response"
  shows "list_body env s =
     (Returned (case files response of Some fs \<Rightarrow> fs | None \<Rightarrow> []),
      (after_auth env s)\<lparr>trace := trace (after_auth env s) @ folder_calls env
         @ [DriveFilesList (file_listing_request folderId)]\<rparr>)"
proof -
  have f: "getOrCreateFolder env folderName (after_auth env s) =
      (Returned folderId, (after_auth env s)\<lparr>trace := trace (after_auth env s) @ folder_calls env\<rparr>)"
    by (rule getOrCreateFolder_resolves [OF _ folder]) simp
  show ?thesis
    by (simp add: list_body_after_auth [OF ready auth] andThen_def f li js_call_def
          await_def js_return_def)
qed

lemma list_body_ReturnedD:
  assumes "list_body env s = (Returned fs, s')"
  shows "client_ready env s \<and> auth_succeeds env \<and>
    (\<exists>folderId response. resolved_folder env = Some folderId
       \<and> files_list env (file_listing_request folderId) = Resolves response
       \<and> fs = (case files response of Some fs \<Rightarrow> fs | None \<Rightarrow> [])
       \<and> s' = (after_auth env s)\<lparr>trace := trace (after_auth env s) @ folder_calls env
            @ [DriveFilesList (file_listing_request folderId)]\<rparr>)"
proof -
  from andThen_ReturnedD [OF assms [unfolded list_body_def]] obtain u s1 where
    load: "loadGoogleDriveAPI env s = (Returned u, s1)" and
    rest1: "andThen (authenticateGoogleUser env) (\<lambda>token.
       if \<not> truthy_str token
         then js_throw (new_Error ''Google authentication failed or was cancelled.'')
       else
         andThen (assign_accessToken (or_empty token)) (\<lambda>_.
         andThen (getOrCreateFolder env folderName) (\<lambda>folderId.
         andThen (js_call (DriveFilesList (file_listing_request folderId))) (\<lambda>_.
         andThen (await (files_list env (file_listing_request folderId))) (\<lambda>response.
           js_return (case files response of Some fs \<Rightarrow> fs | None \<Rightarrow> [])))))) s1
       = (Returned fs, s')"
    by blast
  from loadGoogleDriveAPI_ReturnedD [OF load] have ready: "client_ready env s"
    by simp
  from andThen_ReturnedD [OF rest1] obtain token s2 where
    au: "authenticateGoogleUser env s1 = (Returned token, s2)" and
    rest2: "(if \<not> truthy_str token
         then js_throw (new_Error ''Google authentication failed or was cancelled.'')
       else
         andThen (assign_accessToken (or_empty token)) (\<lambda>_.
         andThen (getOrCreateFolder env folderName) (\<lambda>folderId.
         andThen (js_call (DriveFilesList (file_listing_request folderId))) (\<lambda>_.
         andThen (await (files_list env (file_listing_request folderId))) (\<lambda>response.
           js_return (case files response of Some fs \<Rightarrow> fs | None \<Rightarrow> [])))))) s2
       = (Returned fs, s')"
    by blast
  from rest2 have truthy: "truthy_str token"
    by (auto simp: js_throw_def split: if_splits)
  from authenticateGoogleUser_ReturnedD [OF au truthy] have auth: "auth_succeeds env"
    by simp
  from assms [unfolded list_body_after_auth [OF ready auth]] obtain folderId s3 where
    fo: "getOrCreateFolder env folderName (after_auth env s) = (Returned folderId, s3)" and
    rest3: "andThen (js_call (DriveFilesList (file_listing_request folderId))) (\<lambda>_.
       andThen (await (files_list env (file_listing_request folderId))) (\<lambda>response.
         js_return (case files response of Some fs \<Rightarrow> fs | None \<Rightarrow> []))) s3
       = (Returned fs, s')"
    by (blast dest: andThen_ReturnedD)
  from getOrCreateFolder_ReturnedD [OF fo]
  have folder: "resolved_folder env = Some folderId"
    and s3: "s3 = (after_auth env s)\<lparr>trace := trace (after_auth env s) @ folder_calls env\<rparr>"
    by simp_all
  from rest3 obtain response where
    "files_list env (file_listing_request folderId) = Resolves response"
    "fs = (case files response of Some fs \<Rightarrow> fs | None \<Rightarrow> [])"
    "s' = s3\<lparr>trace := trace s3 @ [DriveFilesList (file_listing_request folderId)]\<rparr>"
    by (auto simp: andThen_def js_call_def await_def js_return_def split: settled.splits)
  with ready auth folder s3 show ?thesis by simp
qed

lemma list_returned_from_body:
  assumes "fst (listFilesFromGoogleCloud env s) = Returned fs"
  shows "list_body env s = (Returned fs, snd (listFilesFromGoogleCloud env s))"
proof (cases "fst (list_body env s)")
  case (Returned fs')
  then have "listFilesFromGoogleCloud env s = list_body env s"
    by (simp add: listFilesFromGoogleCloud_def tryCatch_Returned)
  with assms show ?thesis
    by (cases "list_body env s") simp
next
  case (Thrown e)
  with assms show ?thesis
    by (simp add: listFilesFromGoogleCloud_def tryCatch_Thrown js_throw_def)
next
  case Pending
  with assms show ?thesis
    by (simp add: listFilesFromGoogleCloud_def tryCatch_Pending)
qed

subsection \<open>Timestamp names\<close>

lemma conforms_replace_colon_dot_inj:
  "conforms p a \<Longrightarrow> conforms p b \<Longrightarrow> replace_colon_dot a = replace_colon_dot b \<Longrightarrow> a = b"
proof (induction p a arbitrary: b rule: conforms.induct)
  case 1
  then show ?case by (cases b) simp_all
next
  case (2 p ps c cs)
  then obtain d ds where b: "b = d # ds" by (cases b) auto
  with 2 show ?case
    by (auto simp: replace_colon_dot_def is_digit_def split: if_splits)
qed simp_all

lemma generated_fileName_inj:
  assumes "iso_wf (now_iso env)" and "iso_wf (now_iso env')"
    and "generated_fileName env = generated_fileName env'"
  shows "now_iso env = now_iso env'"
proof -
  from assms(3) have "replace_colon_dot (now_iso env) = replace_colon_dot (now_iso env')"
    by (simp add: generated_fileName_def)
  with assms(1,2) show ?thesis
    unfolding iso_wf_def by (rule conforms_replace_colon_dot_inj)
qed

subsection \<open>The Drive service\<close>

lemma resolved_folder_in_store:
  assumes drive: "\<forall>req. files_list env req = Resolves (drive_files_list store req)"
    and folder: "resolved_folder env = Some folderId"
  shows "(\<exists>r \<in> set store. r_id r = folderId \<and> r_name r = folderName
            \<and> r_mimeType r = ''application/vnd.google-apps.folder'' \<and> \<not> r_trashed r)
         \<or> files_create env (folder_create_request folderName) = Resolves folderId"
proof -
  let ?found = "take 100 (filter (matches
      (NameMimeNotTrashed folderName ''application/vnd.google-apps.folder'')) store)"
  have answer: "files_list env (folder_search_request folderName) =
      Resolves \<lparr>files = Some (map (project ''files(id, name)'') ?found)\<rparr>"
    using drive by (simp add: drive_files_list_def folder_search_request_def order_by_def)
  show ?thesis
  proof (cases ?found)
    case Nil
    with folder answer show ?thesis
      by (simp add: resolved_folder_def split: settled.splits)
  next
    case (Cons r rs)
    with folder answer have id: "folderId = r_id r"
      by (simp add: resolved_folder_def project_def)
    from Cons have "r \<in> set ?found" by simp
    then have "r \<in> set (filter (matches
      (NameMimeNotTrashed folderName ''application/vnd.google-apps.folder'')) store)"
      by (rule in_set_takeD)
    with id show ?thesis by auto
  qed
qed

lemma order_by_desc_sorted:
  "sorted_wrt (\<lambda>a b. r_modifiedTime b \<le> r_modifiedTime a)
     (order_by (Some ''modifiedTime desc'') rs)"
proof -
  have "sorted (map r_modifiedTime (sort_key r_modifiedTime rs))"
    by (rule sorted_sort_key)
  then have "sorted_wrt (\<lambda>a b. r_modifiedTime a \<le> r_modifiedTime b) (sort_key r_modifiedTime rs)"
    by (simp add: sorted_map)
  then show ?thesis
    by (simp add: order_by_def sorted_wrt_rev)
qed

lemma set_order_by: "set (order_by ob rs) = set rs"
  by (simp add: order_by_def)

lemma client_ready_existing [simp]:
  "client_ready existing_folder_remote fresh_state"
  "gapi s = DriveReady \<Longrightarrow> client_ready env s"
  by (simp_all add: client_ready_def existing_folder_remote_def echo_remote_def fresh_state_def)

lemma existing_folder_remote_simps [simp]:
  "auth_succeeds existing_folder_remote"
  "granted_token existing_folder_remote = ''token-1''"
  "resolved_folder existing_folder_remote = Some ''folder-1''"
  "folder_calls existing_folder_remote = [DriveFilesList (folder_search_request ''excalidraw'')]"
  "generated_fileName existing_folder_remote = ''excalidraw-2024-05-06T07-08-09-123Z.excalidraw''"
  "fetch existing_folder_remote rq =
     Resolves (ok_response (JObj [(''id'', JStr ''file-1''),
       (''name'', JStr ''excalidraw-2024-05-06T07-08-09-123Z.excalidraw'')]))"
  by (simp_all add: auth_succeeds_def granted_token_def resolved_folder_def folder_calls_def
        generated_fileName_def replace_colon_dot_def existing_folder_remote_def echo_remote_def
        consent_def folderName_def)

lemma granted_token_echo [simp]: "granted_token echo_remote = ''token-1''"
  by (simp add: granted_token_def echo_remote_def consent_def)

lemma drive_remote_simps [simp]:
  "client_ready drive_remote fresh_state"
  "auth_succeeds drive_remote"
  "files_list drive_remote req = Resolves (drive_files_list example_store req)"
  by (simp_all add: client_ready_def auth_succeeds_def drive_remote_def echo_remote_def
        fresh_state_def consent_def)

lemma resolved_folder_drive [simp]: "resolved_folder drive_remote = Some ''folder-1''"
  by (simp add: resolved_folder_def)
     (simp add: drive_files_list_def folder_search_request_def example_store_def
        folderName_def order_by_def project_def)

section \<open>loadFromGoogleCloud without a token\<close>

text \<open>
  Claim C2. With no access token in the process state, \<^verbatim>\<open>loadFromGoogleCloud\<close> throws the
  "Not authenticated" error (wrapped by its own catch clause) for every file id and every
  remote side, and the state it leaves is the state it started from: nothing was added to
  the trace of outgoing calls (no fetch, no token request) and the token slot is still
  empty.
\<close>

theorem load_without_token_not_authenticated:
  "accessToken s = None \<Longrightarrow>
   loadFromGoogleCloud env fileId s =
     (Thrown (new_Error ''Failed to load file: Not authenticated. Please try again.''), s)
   \<and> new_calls s (snd (loadFromGoogleCloud env fileId s)) = []"
  by (simp add: loadFromGoogleCloud_def load_body_def comp_defs new_calls_def)

theorem load_without_token_not_authenticated_witness:
  "accessToken fresh_state = None \<and>
   loadFromGoogleCloud echo_remote ''file-1'' fresh_state =
     (Thrown (new_Error ''Failed to load file: Not authenticated. Please try again.''),
      fresh_state)
   \<and> new_calls fresh_state (snd (loadFromGoogleCloud echo_remote ''file-1'' fresh_state)) = []"
proof -
  have h: "accessToken fresh_state = None"
    by (simp add: fresh_state_def)
  from h load_without_token_not_authenticated [OF h, of echo_remote "''file-1''"]
  show ?thesis by blast
qed

section \<open>The result of a successful save\<close>

text \<open>
  Claim C1, as the code has it. When the client library is usable, the consent flow grants
  a token, the folder is found or created and the upload is answered 2xx with a JSON body
  \<open>j\<close> other than \<^verbatim>\<open>null\<close>, \<^verbatim>\<open>saveToGoogleCloud\<close> returns the record
  \<^verbatim>\<open>{ success: true, message: "File saved successfully to Google Cloud!", fileName: j.name }\<close>:
  the file name is read from the upload response, and it is the timestamp-derived name
  generated at the start of the call whenever the response carries that name back.
\<close>

theorem save_returns_name_of_upload_response:
  assumes "client_ready env s" and "auth_succeeds env"
    and "uploaded_json env elements binaryFiles = Some j" and "j \<noteq> JNull"
  shows "fst (saveToGoogleCloud env elements binaryFiles s) =
           Returned \<lparr>success = True,
                     message = ''File saved successfully to Google Cloud!'',
                     fileName = field ''name'' j\<rparr>
         \<and> (field ''name'' j = Some (JStr (generated_fileName env)) \<longrightarrow>
              fst (saveToGoogleCloud env elements binaryFiles s) =
                Returned \<lparr>success = True,
                          message = ''File saved successfully to Google Cloud!'',
                          fileName = Some (JStr (generated_fileName env))\<rparr>)"
proof -
  from uploaded_jsonD [OF assms(3)] obtain folderId response where
    "resolved_folder env = Some folderId"
    "fetch env (save_upload_request env elements binaryFiles folderId) = Resolves response"
    "ok response" "body_json response = Resolves j"
    by blast
  from save_body_succeeds [OF assms(1,2) this assms(4)]
  have "fst (save_body env elements binaryFiles s) = Returned (saved_result j)"
    by simp
  then have "fst (saveToGoogleCloud env elements binaryFiles s) = Returned (saved_result j)"
    by (simp add: saveToGoogleCloud_def tryCatch_Returned)
  then show ?thesis
    by (simp add: saved_result_def)
qed

theorem save_returns_name_of_upload_response_witness:
  "client_ready echo_remote fresh_state \<and> auth_succeeds echo_remote
   \<and> uploaded_json echo_remote [rectangle] [] =
       Some (JObj [(''id'', JStr ''file-1''),
                   (''name'', JStr ''excalidraw-2024-05-06T07-08-09-123Z.excalidraw'')])
   \<and> fst (saveToGoogleCloud echo_remote [rectangle] [] fresh_state) =
       Returned \<lparr>success = True,
                 message = ''File saved successfully to Google Cloud!'',
                 fileName = Some (JStr ''excalidraw-2024-05-06T07-08-09-123Z.excalidraw'')\<rparr>"
  using save_returns_name_of_upload_response
    [of echo_remote fresh_state "[rectangle]" "[]"
        "JObj [(''id'', JStr ''file-1''),
               (''name'', JStr ''excalidraw-2024-05-06T07-08-09-123Z.excalidraw'')]"]
  by (simp add: field_def)

text \<open>
  Claim C1 as stated, that the value returned is exactly
  \<^verbatim>\<open>{ success: true, fileName: <generated name> }\<close>, fails. With every step succeeding on
  the one-rectangle document and an upload answer \<^verbatim>\<open>{"id": "file-1"}\<close>, the \<^verbatim>\<open>fileName\<close>
  returned is \<^verbatim>\<open>undefined\<close> although the name generated at the start of the call is
  \<^verbatim>\<open>excalidraw-2024-05-06T07-08-09-123Z.excalidraw\<close>; and the returned value has the
  \<^verbatim>\<open>message\<close> property besides \<^verbatim>\<open>success\<close> and \<^verbatim>\<open>fileName\<close>.
\<close>

theorem save_fileName_counterexample:
  "client_ready bare_remote fresh_state \<and> auth_succeeds bare_remote
   \<and> uploaded_json bare_remote [rectangle] [] = Some (JObj [(''id'', JStr ''file-1'')])
   \<and> generated_fileName bare_remote = ''excalidraw-2024-05-06T07-08-09-123Z.excalidraw''
   \<and> fst (saveToGoogleCloud bare_remote [rectangle] [] fresh_state) =
       Returned \<lparr>success = True,
                 message = ''File saved successfully to Google Cloud!'',
                 fileName = None\<rparr>
   \<and> fileName \<lparr>success = True,
                 message = ''File saved successfully to Google Cloud!'',
                 fileName = None\<rparr>
       \<noteq> Some (JStr (generated_fileName bare_remote))"
proof -
  have "fetch bare_remote (save_upload_request bare_remote [rectangle] [] ''folder-1'') =
          Resolves (ok_response (JObj [(''id'', JStr ''file-1'')]))"
    by (simp add: bare_remote_def echo_remote_def)
  from save_body_succeeds [OF client_ready_bare auth_succeeds_bare resolved_folder_bare this]
  have "fst (save_body bare_remote [rectangle] [] fresh_state) =
          Returned (saved_result (JObj [(''id'', JStr ''file-1'')]))"
    by (simp add: ok_response_def)
  then have "fst (saveToGoogleCloud bare_remote [rectangle] [] fresh_state) =
          Returned (saved_result (JObj [(''id'', JStr ''file-1'')]))"
    by (simp add: saveToGoogleCloud_def tryCatch_Returned)
  then show ?thesis
    by (simp add: saved_result_def field_def)
qed

section \<open>Failures become a result for save and an exception for list and load\<close>

text \<open>
  Claim C3. \<^verbatim>\<open>saveToGoogleCloud\<close> never throws: when a step inside its \<^verbatim>\<open>try\<close> block
  throws \<open>e1\<close>, it returns \<^verbatim>\<open>{ success: false, message: "Failed to save: " + message }\<close>,
  and a returned failure value only ever comes from such a thrown step.
  \<^verbatim>\<open>listFilesFromGoogleCloud\<close> and \<^verbatim>\<open>loadFromGoogleCloud\<close> have no failure value: a step
  that throws inside their \<^verbatim>\<open>try\<close> block is rethrown to the caller as a new error with the
  message prefixed by "Failed to list files: " or "Failed to load file: ".
\<close>

theorem save_returns_failure_list_load_throw:
  "fst (saveToGoogleCloud env elements binaryFiles s) \<noteq> Thrown x
   \<and> (fst (save_body env elements binaryFiles s) = Thrown e1 \<longrightarrow>
        fst (saveToGoogleCloud env elements binaryFiles s) =
          Returned \<lparr>success = False,
                    message = ''Failed to save: '' @ message_or e1 ''Unknown error'',
                    fileName = None\<rparr>)
   \<and> (fst (saveToGoogleCloud env elements binaryFiles s) = Returned r \<and> \<not> success r \<longrightarrow>
        (\<exists>e. fst (save_body env elements binaryFiles s) = Thrown e))
   \<and> (fst (list_body env s) = Thrown e2 \<longrightarrow>
        fst (listFilesFromGoogleCloud env s) =
          Thrown (new_Error (''Failed to list files: '' @ message_or e2 ''Unknown error'')))
   \<and> (fst (load_body env fileId s) = Thrown e3 \<longrightarrow>
        fst (loadFromGoogleCloud env fileId s) =
          Thrown (new_Error (''Failed to load file: '' @ message_or e3 ''Unknown error'')))"
proof (intro conjI impI)
  show "fst (saveToGoogleCloud env elements binaryFiles s) \<noteq> Thrown x"
    by (cases "fst (save_body env elements binaryFiles s)")
       (simp_all add: saveToGoogleCloud_def tryCatch_Returned tryCatch_Thrown
          tryCatch_Pending js_return_def)
next
  assume "fst (save_body env elements binaryFiles s) = Thrown e1"
  then show "fst (saveToGoogleCloud env elements binaryFiles s) =
          Returned \<lparr>success = False,
                    message = ''Failed to save: '' @ message_or e1 ''Unknown error'',
                    fileName = None\<rparr>"
    by (simp add: saveToGoogleCloud_def tryCatch_Thrown js_return_def)
next
  assume a: "fst (saveToGoogleCloud env elements binaryFiles s) = Returned r \<and> \<not> success r"
  show "\<exists>e. fst (save_body env elements binaryFiles s) = Thrown e"
  proof (cases "fst (save_body env elements binaryFiles s)")
    case (Returned r')
    then have "fst (saveToGoogleCloud env elements binaryFiles s) = Returned r'" "success r'"
      by (simp_all add: saveToGoogleCloud_def tryCatch_Returned save_body_returns_success)
    with a show ?thesis by simp
  next
    case (Thrown e)
    then show ?thesis by blast
  next
    case Pending
    with a show ?thesis
      by (simp add: saveToGoogleCloud_def tryCatch_Pending)
  qed
next
  assume "fst (list_body env s) = Thrown e2"
  then show "fst (listFilesFromGoogleCloud env s) =
          Thrown (new_Error (''Failed to list files: '' @ message_or e2 ''Unknown error''))"
    by (simp add: listFilesFromGoogleCloud_def tryCatch_Thrown js_throw_def)
next
  assume "fst (load_body env fileId s) = Thrown e3"
  then show "fst (loadFromGoogleCloud env fileId s) =
          Thrown (new_Error (''Failed to load file: '' @ message_or e3 ''Unknown error''))"
    by (simp add: loadFromGoogleCloud_def tryCatch_Thrown js_throw_def)
qed

theorem save_returns_failure_list_load_throw_witness:
  "fst (save_body denied_remote [rectangle] [] fresh_state) =
     Thrown (new_Error ''Folder operation failed: [object Object]'')
   \<and> fst (saveToGoogleCloud denied_remote [rectangle] [] fresh_state) =
     Returned \<lparr>success = False,
               message = ''Failed to save: Folder operation failed: [object Object]'',
               fileName = None\<rparr>
   \<and> fst (list_body denied_remote fresh_state) =
     Thrown (new_Error ''Folder operation failed: [object Object]'')
   \<and> fst (listFilesFromGoogleCloud denied_remote fresh_state) =
     Thrown (new_Error ''Failed to list files: Folder operation failed: [object Object]'')
   \<and> fst (load_body denied_remote ''file-1'' fresh_state) =
     Thrown (new_Error ''Not authenticated. Please try again.'')
   \<and> fst (loadFromGoogleCloud denied_remote ''file-1'' fresh_state) =
     Thrown (new_Error ''Failed to load file: Not authenticated. Please try again.'')"
proof -
  have 1: "fst (save_body denied_remote [rectangle] [] fresh_state) =
     Thrown (new_Error ''Folder operation failed: [object Object]'')"
    by (simp add: save_body_folder_fails [OF client_ready_denied auth_succeeds_denied
          folder_step_fails_denied] message_or_self_def message_or_def)
  have 2: "fst (list_body denied_remote fresh_state) =
     Thrown (new_Error ''Folder operation failed: [object Object]'')"
    by (simp add: list_body_folder_fails [OF client_ready_denied auth_succeeds_denied
          folder_step_fails_denied] message_or_self_def message_or_def)
  have 3: "fst (load_body denied_remote ''file-1'' fresh_state) =
     Thrown (new_Error ''Not authenticated. Please try again.'')"
    by (simp add: load_body_def comp_defs fresh_state_def)
  from 1 2 3 save_returns_failure_list_load_throw
    [of denied_remote "[rectangle]" "[]" fresh_state _
        "new_Error ''Folder operation failed: [object Object]''" _
        "new_Error ''Folder operation failed: [object Object]''" "''file-1''"
        "new_Error ''Not authenticated. Please try again.''"]
  show ?thesis by simp
qed

section \<open>A failing folder step\<close>

text \<open>
  Claim C4. In a run of \<^verbatim>\<open>saveToGoogleCloud\<close> that reaches the folder step (client library
  usable, token granted) and in which the folder search rejects, or finds nothing and the
  folder create call rejects, with \<open>e\<close>: the result is the failure value whose message is
  "Failed to save: Folder operation failed: " followed by the message of \<open>e\<close>, and no fetch
  (hence no upload) is among the calls the run made.
\<close>

theorem save_folder_failure_no_upload:
  assumes "client_ready env s" and "auth_succeeds env" and "folder_step_fails env e"
  shows "fst (saveToGoogleCloud env elements binaryFiles s) =
           Returned \<lparr>success = False,
                     message = ''Failed to save: Folder operation failed: ''
                                 @ message_or_self e,
                     fileName = None\<rparr>
         \<and> new_calls s (snd (saveToGoogleCloud env elements binaryFiles s)) =
             init_calls s @ [RequestAccessToken] @ folder_calls env
         \<and> (\<forall>rq. Fetch rq \<notin> set (new_calls s (snd (saveToGoogleCloud env elements binaryFiles s))))"
proof -
  have body: "save_body env elements binaryFiles s =
     (Thrown (new_Error (''Folder operation failed: '' @ message_or_self e)),
      (after_auth env s)\<lparr>trace := trace (after_auth env s) @ folder_calls env\<rparr>)"
    by (rule save_body_folder_fails [OF assms])
  then have run: "saveToGoogleCloud env elements binaryFiles s =
     (Returned \<lparr>success = False,
                message = ''Failed to save: Folder operation failed: '' @ message_or_self e,
                fileName = None\<rparr>,
      (after_auth env s)\<lparr>trace := trace (after_auth env s) @ folder_calls env\<rparr>)"
    by (simp add: saveToGoogleCloud_def tryCatch_Thrown js_return_def)
  have calls: "new_calls s (snd (saveToGoogleCloud env elements binaryFiles s)) =
             init_calls s @ [RequestAccessToken] @ folder_calls env"
    by (simp add: run new_calls_def trace_after_auth)
  have "\<forall>rq. Fetch rq \<notin> set (init_calls s @ [RequestAccessToken] @ folder_calls env)"
    by (auto simp: init_calls_def folder_calls_def
             split: settled.splits option.splits list.splits if_splits)
  with run calls show ?thesis by simp
qed

theorem save_folder_failure_no_upload_witness:
  "client_ready denied_remote fresh_state \<and> auth_succeeds denied_remote
   \<and> folder_step_fails denied_remote (JsObject None None None ''[object Object]'')
   \<and> fst (saveToGoogleCloud denied_remote [rectangle] [] fresh_state) =
       Returned \<lparr>success = False,
                 message = ''Failed to save: Folder operation failed: [object Object]'',
                 fileName = None\<rparr>
   \<and> new_calls fresh_state (snd (saveToGoogleCloud denied_remote [rectangle] [] fresh_state)) =
       [GapiClientInit, RequestAccessToken,
        DriveFilesList (folder_search_request ''excalidraw''),
        DriveFilesCreate (folder_create_request ''excalidraw'')]"
proof -
  have calls: "init_calls fresh_state = [GapiClientInit]"
    "folder_calls denied_remote =
       [DriveFilesList (folder_search_request ''excalidraw''),
        DriveFilesCreate (folder_create_request ''excalidraw'')]"
    by (simp_all add: init_calls_def folder_calls_def fresh_state_def denied_remote_def
          echo_remote_def folderName_def)
  have msg: "message_or_self (JsObject None None None ''[object Object]'') = ''[object Object]''"
    by (simp add: message_or_self_def message_or_def)
  from save_folder_failure_no_upload
    [OF client_ready_denied auth_succeeds_denied folder_step_fails_denied,
     of "[rectangle]" "[]"]
  show ?thesis
    by (simp add: calls msg)
qed


section \<open>Initialising the client library\<close>

text \<open>
  Claim C8. When the Drive client is present, \<^verbatim>\<open>loadGoogleDriveAPI\<close> resolves at once and
  changes nothing (no \<^verbatim>\<open>gapi.load\<close>, no \<^verbatim>\<open>gapi.client.init\<close>). A call that resolves leaves
  the Drive client present, so a second call after it is such a no-op. And from a state
  with the Drive client present, no operation of a session initialises the library again.
\<close>

theorem loadGoogleDriveAPI_idempotent:
  "(gapi s = DriveReady \<longrightarrow> loadGoogleDriveAPI env s = (Returned (), s))
   \<and> (fst (loadGoogleDriveAPI env s) = Returned () \<longrightarrow>
        gapi (snd (loadGoogleDriveAPI env s)) = DriveReady
        \<and> loadGoogleDriveAPI env' (snd (loadGoogleDriveAPI env s)) =
            (Returned (), snd (loadGoogleDriveAPI env s)))
   \<and> (gapi s = DriveReady \<longrightarrow>
        gapi (session ops s) = DriveReady
        \<and> GapiClientInit \<notin> set (new_calls s (session ops s)))"
proof (intro conjI impI)
  assume "gapi s = DriveReady"
  then show "loadGoogleDriveAPI env s = (Returned (), s)"
    by (simp add: loadGoogleDriveAPI_def comp_defs)
next
  assume r: "fst (loadGoogleDriveAPI env s) = Returned ()"
  then have "loadGoogleDriveAPI env s = (Returned (), snd (loadGoogleDriveAPI env s))"
    by (cases "loadGoogleDriveAPI env s") simp
  from loadGoogleDriveAPI_ReturnedD [OF this]
  show g: "gapi (snd (loadGoogleDriveAPI env s)) = DriveReady"
    by (cases s) (simp add: init_calls_def)
  then show "loadGoogleDriveAPI env' (snd (loadGoogleDriveAPI env s)) =
            (Returned (), snd (loadGoogleDriveAPI env s))"
    by (simp add: loadGoogleDriveAPI_def comp_defs)
next
  assume ready: "gapi s = DriveReady"
  have "gapi (session ops s) = DriveReady \<and>
        (\<exists>new. trace (session ops s) = trace s @ new
           \<and> list_all (\<lambda>c. c \<noteq> GapiClientInit) new)"
    by (rule session_invariant [where I = "\<lambda>s. gapi s = DriveReady", OF _ ready])
       (rule emits_perform [OF save_keeps_drive list_keeps_drive load_keeps_drive])
  then obtain new where "gapi (session ops s) = DriveReady"
    "trace (session ops s) = trace s @ new" "list_all (\<lambda>c. c \<noteq> GapiClientInit) new"
    by blast
  then show "gapi (session ops s) = DriveReady"
    and "GapiClientInit \<notin> set (new_calls s (session ops s))"
    by (auto simp: new_calls_def list_all_iff)
qed

theorem loadGoogleDriveAPI_idempotent_witness:
  "gapi ready_state = DriveReady
   \<and> loadGoogleDriveAPI echo_remote ready_state = (Returned (), ready_state)
   \<and> fst (loadGoogleDriveAPI echo_remote fresh_state) = Returned ()
   \<and> loadGoogleDriveAPI denied_remote (snd (loadGoogleDriveAPI echo_remote fresh_state)) =
       (Returned (), snd (loadGoogleDriveAPI echo_remote fresh_state))
   \<and> GapiClientInit \<notin> set (new_calls ready_state
        (session [Save echo_remote [rectangle] [], ListFiles denied_remote,
                  LoadFile echo_remote ''file-1''] ready_state))"
proof -
  have a: "gapi ready_state = DriveReady"
    by (simp add: ready_state_def)
  have b: "fst (loadGoogleDriveAPI echo_remote fresh_state) = Returned ()"
    by (simp add: loadGoogleDriveAPI_ready)
  from a b
    loadGoogleDriveAPI_idempotent [of ready_state echo_remote denied_remote
      "[Save echo_remote [rectangle] [], ListFiles denied_remote, LoadFile echo_remote ''file-1'']"]
    loadGoogleDriveAPI_idempotent [of fresh_state echo_remote denied_remote "[]"]
  show ?thesis by blast
qed

section \<open>The access token slot\<close>

text \<open>
  Claim C10. None of the four steps writes the token slot, whatever its outcome: the only
  assignment is the one that follows a consent flow which delivered a non-empty token. So
  after any operation the slot holds what it held before, or the non-empty token granted
  in that operation (which stays stored when a later step of the operation fails); load
  never changes it. No operation clears the slot: once it is non-null it is non-null after
  every further operation of the session.
\<close>

theorem accessToken_only_set_by_successful_auth:
  "accessToken (snd (loadGoogleDriveAPI env s)) = accessToken s
   \<and> accessToken (snd (authenticateGoogleUser env s)) = accessToken s
   \<and> accessToken (snd (getOrCreateFolder env name s)) = accessToken s
   \<and> accessToken (snd (uploadToGoogleDrive env file name folderId s)) = accessToken s
   \<and> (accessToken (perform op s) = accessToken s \<or>
        (authenticates op \<and> auth_succeeds (env_of op) \<and> granted_token (env_of op) \<noteq> []
         \<and> accessToken (perform op s) = Some (granted_token (env_of op))))
   \<and> (accessToken s \<noteq> None \<longrightarrow> accessToken (session ops s) \<noteq> None)"
proof (intro conjI impI)
  assume some: "accessToken s \<noteq> None"
  have "accessToken (session ops s) \<noteq> None \<and>
        (\<exists>new. trace (session ops s) = trace s @ new \<and> list_all (\<lambda>c. True) new)"
    by (rule session_invariant [where I = "\<lambda>s. accessToken s \<noteq> None", OF _ some])
       (rule emits_perform [OF save_token_kept list_token_kept load_token_kept])
  then show "accessToken (session ops s) \<noteq> None" by simp
qed (simp_all add: loadGoogleDriveAPI_token authenticateGoogleUser_token
       getOrCreateFolder_token uploadToGoogleDrive_token perform_token)

theorem accessToken_only_set_by_successful_auth_witness:
  "accessToken ready_state \<noteq> None
   \<and> accessToken (session [Save denied_remote [rectangle] [], LoadFile echo_remote ''file-1'',
        ListFiles denied_remote] ready_state) \<noteq> None
   \<and> accessToken (perform (Save denied_remote [rectangle] []) ready_state)
       \<in> {Some ''token-0'', Some ''token-1''}"
proof -
  have a: "accessToken ready_state \<noteq> None"
    by (simp add: ready_state_def)
  have b: "accessToken ready_state = Some ''token-0''"
    by (simp add: ready_state_def)
  have c: "granted_token denied_remote = ''token-1''"
    by (simp add: granted_token_def denied_remote_def echo_remote_def consent_def)
  from a accessToken_only_set_by_successful_auth
    [where s = ready_state and op = "Save denied_remote [rectangle] []"
       and ops = "[Save denied_remote [rectangle] [], LoadFile echo_remote ''file-1'',
         ListFiles denied_remote]"]
  show ?thesis by (auto simp: b c)
qed

section \<open>The document that save() stores\<close>

text \<open>
  Claim C7. Whatever the elements and files, every upload request made by
  \<^verbatim>\<open>saveToGoogleCloud\<close> carries as its file part \<^verbatim>\<open>JSON.stringify(data, null, 2)\<close> of the
  envelope, and that text is laid out as follows: the six members \<^verbatim>\<open>type\<close>, \<^verbatim>\<open>version\<close>,
  \<^verbatim>\<open>source\<close>, \<^verbatim>\<open>elements\<close>, \<^verbatim>\<open>appState\<close>, \<^verbatim>\<open>files\<close> in this order, one per line at two
  spaces of indentation, with the elements array and the files object serialised one
  level deeper.
\<close>

theorem save_payload_is_pretty_printed_envelope:
  \<open>(Fetch rq \<in> set (new_calls s (snd (saveToGoogleCloud env elements binaryFiles s))) \<longrightarrow>
      form_file rq = Some (stringify (save_data elements binaryFiles) 2))
   \<and> stringify (save_data elements binaryFiles) 2 =
       ''{'' @ nl @
       ''  "type": "excalidraw",'' @ nl @
       ''  "version": 2,'' @ nl @
       ''  "source": "https://excalidraw.com",'' @ nl @
       ''  "elements": '' @ serialize ''  '' ''  '' (JArr elements) @ '','' @ nl @
       ''  "appState": {'' @ nl @
       ''    "viewBackgroundColor": "#ffffff"'' @ nl @
       ''  },'' @ nl @
       ''  "files": '' @ serialize ''  '' ''  '' (JObj binaryFiles) @ nl @
       ''}''\<close>
proof (intro conjI impI)
  assume "Fetch rq \<in> set (new_calls s (snd (saveToGoogleCloud env elements binaryFiles s)))"
  with emitsD [OF save_uploads_document [of elements binaryFiles env], of s]
  obtain token folderId where "rq = upload_request token
      (stringify (save_data elements binaryFiles) 2) (generated_fileName env) folderId"
    unfolding list_all_iff by blast
  then show "form_file rq = Some (stringify (save_data elements binaryFiles) 2)"
    by (simp add: upload_request_def)
next
  have two: "replicate (min 2 10) CHR '' '' = ''  ''"
    by (simp add: numeral_2_eq_2)
  have q: "quoteJSONString ''type'' = dq @ ''type'' @ dq"
    "quoteJSONString ''excalidraw'' = dq @ ''excalidraw'' @ dq"
    "quoteJSONString ''version'' = dq @ ''version'' @ dq"
    "quoteJSONString ''source'' = dq @ ''source'' @ dq"
    "quoteJSONString ''https://excalidraw.com'' = dq @ ''https://excalidraw.com'' @ dq"
    "quoteJSONString ''elements'' = dq @ ''elements'' @ dq"
    "quoteJSONString ''appState'' = dq @ ''appState'' @ dq"
    "quoteJSONString ''viewBackgroundColor'' = dq @ ''viewBackgroundColor'' @ dq"
    "quoteJSONString ''#ffffff'' = dq @ ''#ffffff'' @ dq"
    "quoteJSONString ''files'' = dq @ ''files'' @ dq"
    by (simp_all add: quoteJSONString_def quote_char_def)
  show "stringify (save_data elements binaryFiles) 2 =
       ''{'' @ nl @
       ''  \"type\": \"excalidraw\",'' @ nl @
       ''  \"version\": 2,'' @ nl @
       ''  \"source\": \"https://excalidraw.com\",'' @ nl @
       ''  \"elements\": '' @ serialize ''  '' ''  '' (JArr elements) @ '','' @ nl @
       ''  \"appState\": {'' @ nl @
       ''    \"viewBackgroundColor\": \"#ffffff\"'' @ nl @
       ''  },'' @ nl @
       ''  \"files\": '' @ serialize ''  '' ''  '' (JObj binaryFiles) @ nl @
       ''}''"
    unfolding stringify_def two save_data_def
    by (simp add: q dq_def nl_def)
qed

theorem save_payload_is_pretty_printed_envelope_witness:
  \<open>Fetch (save_upload_request echo_remote [rectangle] [] ''folder-1'')
     \<in> set (new_calls fresh_state (snd (saveToGoogleCloud echo_remote [rectangle] [] fresh_state)))
   \<and> form_file (save_upload_request echo_remote [rectangle] [] ''folder-1'') =
       Some (stringify (save_data [rectangle] []) 2)
   \<and> stringify (save_data [rectangle] []) 2 =
       ''{'' @ nl @
       ''  "type": "excalidraw",'' @ nl @
       ''  "version": 2,'' @ nl @
       ''  "source": "https://excalidraw.com",'' @ nl @
       ''  "elements": ['' @ nl @
       ''    {'' @ nl @
       ''      "id": "rect-1",'' @ nl @
       ''      "type": "rectangle",'' @ nl @
       ''      "x": 10,'' @ nl @
       ''      "y": 20.5,'' @ nl @
       ''      "width": 100,'' @ nl @
       ''      "height": 50'' @ nl @
       ''    }'' @ nl @
       ''  ],'' @ nl @
       ''  "appState": {'' @ nl @
       ''    "viewBackgroundColor": "#ffffff"'' @ nl @
       ''  },'' @ nl @
       ''  "files": {}'' @ nl @
       ''}''\<close>
proof -
  have calls: "new_calls fresh_state (snd (saveToGoogleCloud echo_remote [rectangle] [] fresh_state)) =
      init_calls fresh_state @ [RequestAccessToken] @ folder_calls echo_remote
        @ [Fetch (save_upload_request echo_remote [rectangle] [] ''folder-1'')]"
    by (rule save_succeeds_calls [OF client_ready_fresh auth_succeeds_echo resolved_folder_echo
          fetch_echo ok_response_simps]) simp
  have member: "Fetch (save_upload_request echo_remote [rectangle] [] ''folder-1'')
     \<in> set (new_calls fresh_state (snd (saveToGoogleCloud echo_remote [rectangle] [] fresh_state)))"
    unfolding calls by simp
  have q: "quoteJSONString ''id'' = dq @ ''id'' @ dq"
    "quoteJSONString ''rect-1'' = dq @ ''rect-1'' @ dq"
    "quoteJSONString ''type'' = dq @ ''type'' @ dq"
    "quoteJSONString ''rectangle'' = dq @ ''rectangle'' @ dq"
    "quoteJSONString ''x'' = dq @ ''x'' @ dq"
    "quoteJSONString ''y'' = dq @ ''y'' @ dq"
    "quoteJSONString ''width'' = dq @ ''width'' @ dq"
    "quoteJSONString ''height'' = dq @ ''height'' @ dq"
    by (simp_all add: quoteJSONString_def quote_char_def)
  from member
    save_payload_is_pretty_printed_envelope
      [of "save_upload_request echo_remote [rectangle] [] ''folder-1''" fresh_state echo_remote
          "[rectangle]" "[]"]
  show ?thesis
    by (simp add: rectangle_def q dq_def nl_def)
qed

section \<open>The display settings that save() stores\<close>

text \<open>
  Claim C9. \<^verbatim>\<open>saveToGoogleCloud\<close> takes the elements and the binary files only, and for all
  of them the \<^verbatim>\<open>appState\<close> member of the envelope is the constant
  \<^verbatim>\<open>{ viewBackgroundColor: "#ffffff" }\<close>; every upload request of a run carries the
  serialisation of a document with that \<^verbatim>\<open>appState\<close>.
\<close>

theorem save_appState_is_constant:
  "field ''appState'' (save_data elements binaryFiles) =
     Some (JObj [(''viewBackgroundColor'', JStr ''#ffffff'')])
   \<and> (Fetch rq \<in> set (new_calls s (snd (saveToGoogleCloud env elements binaryFiles s))) \<longrightarrow>
        (\<exists>document. form_file rq = Some (stringify document 2)
           \<and> field ''appState'' document =
               Some (JObj [(''viewBackgroundColor'', JStr ''#ffffff'')])))"
proof (intro conjI impI)
  show a: "field ''appState'' (save_data elements binaryFiles) =
     Some (JObj [(''viewBackgroundColor'', JStr ''#ffffff'')])"
    by (simp add: field_def save_data_def)
  assume "Fetch rq \<in> set (new_calls s (snd (saveToGoogleCloud env elements binaryFiles s)))"
  with emitsD [OF save_uploads_document [of elements binaryFiles env], of s]
  obtain token folderId where "rq = upload_request token
      (stringify (save_data elements binaryFiles) 2) (generated_fileName env) folderId"
    unfolding list_all_iff by blast
  then have "form_file rq = Some (stringify (save_data elements binaryFiles) 2)"
    by (simp add: upload_request_def)
  with a show "\<exists>document. form_file rq = Some (stringify document 2)
           \<and> field ''appState'' document =
               Some (JObj [(''viewBackgroundColor'', JStr ''#ffffff'')])"
    by blast
qed

theorem save_appState_is_constant_witness:
  "Fetch (save_upload_request echo_remote [rectangle] [] ''folder-1'')
     \<in> set (new_calls fresh_state (snd (saveToGoogleCloud echo_remote [rectangle] [] fresh_state)))
   \<and> field ''appState'' (save_data [rectangle] []) =
       Some (JObj [(''viewBackgroundColor'', JStr ''#ffffff'')])
   \<and> (\<exists>document.
         form_file (save_upload_request echo_remote [rectangle] [] ''folder-1'') =
           Some (stringify document 2)
         \<and> field ''appState'' document =
             Some (JObj [(''viewBackgroundColor'', JStr ''#ffffff'')]))"
proof -
  have calls: "new_calls fresh_state (snd (saveToGoogleCloud echo_remote [rectangle] [] fresh_state)) =
      init_calls fresh_state @ [RequestAccessToken] @ folder_calls echo_remote
        @ [Fetch (save_upload_request echo_remote [rectangle] [] ''folder-1'')]"
    by (rule save_succeeds_calls [OF client_ready_fresh auth_succeeds_echo resolved_folder_echo
          fetch_echo ok_response_simps]) simp
  have member: "Fetch (save_upload_request echo_remote [rectangle] [] ''folder-1'')
     \<in> set (new_calls fresh_state (snd (saveToGoogleCloud echo_remote [rectangle] [] fresh_state)))"
    unfolding calls by simp
  from member
    save_appState_is_constant
      [of "[rectangle]" "[]" "save_upload_request echo_remote [rectangle] [] ''folder-1''"
          fresh_state echo_remote]
  show ?thesis by blast
qed

section \<open>File names\<close>

text \<open>
  Claim C5, as the code has it. A save that returns success has sent an upload request
  whose metadata names the file \<^verbatim>\<open>excalidraw-<timestamp>.excalidraw\<close>, the timestamp being
  the ISO text of the clock reading at the start of the call with \<^verbatim>\<open>:\<close> and \<^verbatim>\<open>.\<close> replaced
  by \<^verbatim>\<open>-\<close>. Every fetch of a save is a POST to the multipart create endpoint, which adds a
  file and replaces none. The name is a function of the clock reading alone: two calls
  that read different instants (in the 24-character ISO form) get different names, two
  calls that read the same instant get the same name.
\<close>

theorem save_names_file_by_timestamp:
  "(fst (saveToGoogleCloud env elements binaryFiles s) = Returned r \<and> success r \<longrightarrow>
      (\<exists>folderId.
         Fetch (upload_request (granted_token env) (stringify (save_data elements binaryFiles) 2)
                  (''excalidraw-'' @ replace_colon_dot (now_iso env) @ ''.excalidraw'') folderId)
           \<in> set (new_calls s (snd (saveToGoogleCloud env elements binaryFiles s)))))
   \<and> (Fetch rq \<in> set (new_calls s (snd (saveToGoogleCloud env elements binaryFiles s))) \<longrightarrow>
        http_method rq = ''POST''
        \<and> url rq = ''https://www.googleapis.com/upload/drive/v3/files?uploadType=multipart''
        \<and> (\<exists>folderId. form_metadata rq =
              Some (stringify (upload_metadata
                (''excalidraw-'' @ replace_colon_dot (now_iso env) @ ''.excalidraw'') folderId) 0)))
   \<and> (iso_wf (now_iso env) \<and> iso_wf (now_iso env') \<and> now_iso env \<noteq> now_iso env' \<longrightarrow>
        generated_fileName env \<noteq> generated_fileName env')
   \<and> (now_iso env = now_iso env' \<longrightarrow> generated_fileName env = generated_fileName env')"
proof (intro conjI impI)
  assume a: "fst (saveToGoogleCloud env elements binaryFiles s) = Returned r \<and> success r"
  then have "save_body env elements binaryFiles s =
           (Returned r, snd (saveToGoogleCloud env elements binaryFiles s))"
    by (simp add: save_success_from_body)
  from save_body_ReturnedD [OF this] obtain folderId where
    "snd (saveToGoogleCloud env elements binaryFiles s) =
       (after_auth env s)\<lparr>trace := trace (after_auth env s) @ folder_calls env
            @ [Fetch (save_upload_request env elements binaryFiles folderId)]\<rparr>"
    by blast
  then have "Fetch (save_upload_request env elements binaryFiles folderId)
      \<in> set (new_calls s (snd (saveToGoogleCloud env elements binaryFiles s)))"
    by (simp add: new_calls_def trace_after_auth)
  then show "\<exists>folderId.
         Fetch (upload_request (granted_token env) (stringify (save_data elements binaryFiles) 2)
                  (''excalidraw-'' @ replace_colon_dot (now_iso env) @ ''.excalidraw'') folderId)
           \<in> set (new_calls s (snd (saveToGoogleCloud env elements binaryFiles s)))"
    unfolding save_upload_request_def generated_fileName_def by blast
next
  assume "Fetch rq \<in> set (new_calls s (snd (saveToGoogleCloud env elements binaryFiles s)))"
  with emitsD [OF save_uploads_document [of elements binaryFiles env], of s]
  obtain token folderId where rq: "rq = upload_request token
      (stringify (save_data elements binaryFiles) 2) (generated_fileName env) folderId"
    unfolding list_all_iff by blast
  show "http_method rq = ''POST''"
    and "url rq = ''https://www.googleapis.com/upload/drive/v3/files?uploadType=multipart''"
    and "\<exists>folderId. form_metadata rq =
              Some (stringify (upload_metadata
                (''excalidraw-'' @ replace_colon_dot (now_iso env) @ ''.excalidraw'') folderId) 0)"
    unfolding rq generated_fileName_def by (auto simp: upload_request_def)
next
  assume "iso_wf (now_iso env) \<and> iso_wf (now_iso env') \<and> now_iso env \<noteq> now_iso env'"
  then show "generated_fileName env \<noteq> generated_fileName env'"
    using generated_fileName_inj [of env env'] by blast
next
  assume "now_iso env = now_iso env'"
  then show "generated_fileName env = generated_fileName env'"
    by (simp add: generated_fileName_def)
qed

theorem save_names_file_by_timestamp_witness:
  "fst (saveToGoogleCloud echo_remote [rectangle] [] fresh_state) =
     Returned \<lparr>success = True, message = ''File saved successfully to Google Cloud!'',
               fileName = Some (JStr ''excalidraw-2024-05-06T07-08-09-123Z.excalidraw'')\<rparr>
   \<and> Fetch (save_upload_request echo_remote [rectangle] [] ''folder-1'')
       \<in> set (new_calls fresh_state (snd (saveToGoogleCloud echo_remote [rectangle] [] fresh_state)))
   \<and> http_method (save_upload_request echo_remote [rectangle] [] ''folder-1'') = ''POST''
   \<and> iso_wf (now_iso echo_remote) \<and> iso_wf (now_iso later_remote)
   \<and> now_iso echo_remote \<noteq> now_iso later_remote
   \<and> generated_fileName echo_remote \<noteq> generated_fileName later_remote"
proof -
  have run: "saveToGoogleCloud echo_remote [rectangle] [] fresh_state =
     (Returned (saved_result (JObj [(''id'', JStr ''file-1''),
         (''name'', JStr ''excalidraw-2024-05-06T07-08-09-123Z.excalidraw'')])),
      (after_auth echo_remote fresh_state)\<lparr>trace := trace (after_auth echo_remote fresh_state)
         @ folder_calls echo_remote
         @ [Fetch (save_upload_request echo_remote [rectangle] [] ''folder-1'')]\<rparr>)"
    by (rule save_succeeds [OF client_ready_fresh auth_succeeds_echo resolved_folder_echo
          fetch_echo ok_response_simps]) simp
  have result: "fst (saveToGoogleCloud echo_remote [rectangle] [] fresh_state) =
     Returned \<lparr>success = True, message = ''File saved successfully to Google Cloud!'',
               fileName = Some (JStr ''excalidraw-2024-05-06T07-08-09-123Z.excalidraw'')\<rparr>"
    by (simp add: run saved_result_def field_def)
  have member: "Fetch (save_upload_request echo_remote [rectangle] [] ''folder-1'')
       \<in> set (new_calls fresh_state (snd (saveToGoogleCloud echo_remote [rectangle] [] fresh_state)))"
    by (simp add: run new_calls_def trace_after_auth)
  have wf: "iso_wf (now_iso echo_remote)" "iso_wf (now_iso later_remote)"
    "now_iso echo_remote \<noteq> now_iso later_remote"
    by (simp_all add: iso_wf_def is_digit_def echo_remote_def later_remote_def)
  from result member wf
    save_names_file_by_timestamp
      [of echo_remote "[rectangle]" "[]" fresh_state
          "\<lparr>success = True, message = ''File saved successfully to Google Cloud!'',
            fileName = Some (JStr ''excalidraw-2024-05-06T07-08-09-123Z.excalidraw'')\<rparr>"
          "save_upload_request echo_remote [rectangle] [] ''folder-1''" later_remote]
  show ?thesis by simp
qed

text \<open>
  Claim C5 as stated, that any two saves of a document get distinct file names, fails.
  \<^verbatim>\<open>new Date()\<close> reads the wall clock in milliseconds, which two calls can read alike
  (they overlap, or the clock was set back between them): two saves of the one-rectangle
  document that read the same instant both succeed, and both upload under the same file
  name into the same folder.
\<close>

theorem save_same_instant_same_name_counterexample:
  "fst (saveToGoogleCloud existing_folder_remote [rectangle] [] fresh_state) =
     Returned \<lparr>success = True, message = ''File saved successfully to Google Cloud!'',
               fileName = Some (JStr ''excalidraw-2024-05-06T07-08-09-123Z.excalidraw'')\<rparr>
   \<and> fst (saveToGoogleCloud existing_folder_remote [rectangle] []
        (snd (saveToGoogleCloud existing_folder_remote [rectangle] [] fresh_state))) =
     Returned \<lparr>success = True, message = ''File saved successfully to Google Cloud!'',
               fileName = Some (JStr ''excalidraw-2024-05-06T07-08-09-123Z.excalidraw'')\<rparr>
   \<and> trace (session [Save existing_folder_remote [rectangle] [],
                      Save existing_folder_remote [rectangle] []] fresh_state) =
     [GapiClientInit, RequestAccessToken,
      DriveFilesList (folder_search_request ''excalidraw''),
      Fetch (upload_request ''token-1'' (stringify (save_data [rectangle] []) 2)
               ''excalidraw-2024-05-06T07-08-09-123Z.excalidraw'' ''folder-1''),
      RequestAccessToken,
      DriveFilesList (folder_search_request ''excalidraw''),
      Fetch (upload_request ''token-1'' (stringify (save_data [rectangle] []) 2)
               ''excalidraw-2024-05-06T07-08-09-123Z.excalidraw'' ''folder-1'')]"
proof -
  let ?j = "JObj [(''id'', JStr ''file-1''),
         (''name'', JStr ''excalidraw-2024-05-06T07-08-09-123Z.excalidraw'')]"
  let ?rq = "save_upload_request existing_folder_remote [rectangle] [] ''folder-1''"
  have run: "client_ready existing_folder_remote s \<Longrightarrow>
     saveToGoogleCloud existing_folder_remote [rectangle] [] s =
     (Returned (saved_result ?j),
      (after_auth existing_folder_remote s)\<lparr>trace := trace (after_auth existing_folder_remote s)
         @ folder_calls existing_folder_remote @ [Fetch ?rq]\<rparr>)" for s
    by (rule save_succeeds [where response = "ok_response ?j" and j = ?j]) simp_all
  define s1 where "s1 = snd (saveToGoogleCloud existing_folder_remote [rectangle] [] fresh_state)"
  have r1: "fst (saveToGoogleCloud existing_folder_remote [rectangle] [] fresh_state) =
      Returned (saved_result ?j)"
    by (simp add: run)
  have t1: "trace s1 = [GapiClientInit, RequestAccessToken,
      DriveFilesList (folder_search_request ''excalidraw''), Fetch ?rq]"
    unfolding s1_def by (simp add: run trace_after_auth trace_fresh)
  have g1: "gapi s1 = DriveReady"
    unfolding s1_def by (simp add: run)
  have r2: "saveToGoogleCloud existing_folder_remote [rectangle] [] s1 =
     (Returned (saved_result ?j),
      (after_auth existing_folder_remote s1)\<lparr>trace := trace (after_auth existing_folder_remote s1)
         @ folder_calls existing_folder_remote @ [Fetch ?rq]\<rparr>)"
    by (rule run) (simp add: g1)
  have t2: "trace (snd (saveToGoogleCloud existing_folder_remote [rectangle] [] s1)) =
      trace s1 @ [RequestAccessToken,
        DriveFilesList (folder_search_request ''excalidraw''), Fetch ?rq]"
    by (simp add: r2 trace_after_auth init_calls_def g1)
  have rq: "?rq = upload_request ''token-1'' (stringify (save_data [rectangle] []) 2)
               ''excalidraw-2024-05-06T07-08-09-123Z.excalidraw'' ''folder-1''"
    by (simp add: save_upload_request_def)
  have res: "saved_result ?j =
     \<lparr>success = True, message = ''File saved successfully to Google Cloud!'',
      fileName = Some (JStr ''excalidraw-2024-05-06T07-08-09-123Z.excalidraw'')\<rparr>"
    by (simp add: saved_result_def field_def)
  have 1: "fst (saveToGoogleCloud existing_folder_remote [rectangle] [] fresh_state) =
     Returned \<lparr>success = True, message = ''File saved successfully to Google Cloud!'',
               fileName = Some (JStr ''excalidraw-2024-05-06T07-08-09-123Z.excalidraw'')\<rparr>"
    using r1 res by simp
  have 2: "fst (saveToGoogleCloud existing_folder_remote [rectangle] []
        (snd (saveToGoogleCloud existing_folder_remote [rectangle] [] fresh_state))) =
     Returned \<lparr>success = True, message = ''File saved successfully to Google Cloud!'',
               fileName = Some (JStr ''excalidraw-2024-05-06T07-08-09-123Z.excalidraw'')\<rparr>"
    using r2 res unfolding s1_def by simp
  have 3: "trace (session [Save existing_folder_remote [rectangle] [],
                      Save existing_folder_remote [rectangle] []] fresh_state) =
     [GapiClientInit, RequestAccessToken,
      DriveFilesList (folder_search_request ''excalidraw''), Fetch ?rq,
      RequestAccessToken,
      DriveFilesList (folder_search_request ''excalidraw''), Fetch ?rq]"
    using t2 t1 unfolding s1_def by simp
  from 1 2 3 show ?thesis
    unfolding rq by blast
qed

section \<open>Listing\<close>

text \<open>
  Claim C6. The module sends \<^verbatim>\<open>files.list\<close> with
  \<^verbatim>\<open>q = '<folderId>' in parents and trashed=false\<close>, \<^verbatim>\<open>orderBy = modifiedTime desc\<close> and
  \<^verbatim>\<open>pageSize = 100\<close>, and returns the files of the answer as they are. Against a Drive
  service holding any collection \<open>store\<close> of files, a list() that returns therefore
  returns exactly the first 100 of the non-trashed files whose parents include the
  resolved folder, by descending modification time: at most 100 files, ordered, each a
  non-trashed direct child of the folder. The folder is a non-trashed folder of the store
  named \<^verbatim>\<open>excalidraw\<close>, or the one the create call has just returned. And list() does
  return when the client library is usable and the consent flow grants a token, provided
  the folder is found or created.
\<close>

theorem list_returns_capped_ordered_children:
  assumes drive: "\<forall>req. files_list env req = Resolves (drive_files_list store req)"
  shows "(fst (listFilesFromGoogleCloud env s) = Returned fs \<longrightarrow>
            length fs \<le> 100
          \<and> sorted_wrt (\<lambda>a b. \<exists>x y. modifiedTime a = Some x \<and> modifiedTime b = Some y \<and> y \<le> x) fs
          \<and> (\<exists>folderId. resolved_folder env = Some folderId
               \<and> ((\<exists>r \<in> set store. r_id r = folderId \<and> r_name r = folderName
                      \<and> r_mimeType r = ''application/vnd.google-apps.folder''
                      \<and> \<not> r_trashed r)
                    \<or> files_create env (folder_create_request folderName) = Resolves folderId)
               \<and> DriveFilesList (file_listing_request folderId)
                   \<in> set (new_calls s (snd (listFilesFromGoogleCloud env s)))
               \<and> (\<forall>f \<in> set fs. \<exists>r \<in> set store.
                     file_id f = r_id r \<and> file_name f = r_name r
                     \<and> modifiedTime f = Some (r_modifiedTime r)
                     \<and> folderId \<in> set (r_parents r) \<and> \<not> r_trashed r)
               \<and> fs = map (project ''files(id, name, createdTime, modifiedTime)'')
                   (take 100 (rev (sort_key r_modifiedTime
                      (filter (\<lambda>r. folderId \<in> set (r_parents r) \<and> \<not> r_trashed r) store))))))
       \<and> (client_ready env s \<and> auth_succeeds env \<and> resolved_folder env \<noteq> None \<longrightarrow>
            (\<exists>fs. fst (listFilesFromGoogleCloud env s) = Returned fs))"
proof (intro conjI impI)
  assume "fst (listFilesFromGoogleCloud env s) = Returned fs"
  from list_body_ReturnedD [OF list_returned_from_body [OF this]]
  obtain folderId response where
    folder: "resolved_folder env = Some folderId" and
    li: "files_list env (file_listing_request folderId) = Resolves response" and
    fs: "fs = (case files response of Some fs \<Rightarrow> fs | None \<Rightarrow> [])" and
    s': "snd (listFilesFromGoogleCloud env s) =
           (after_auth env s)\<lparr>trace := trace (after_auth env s) @ folder_calls env
              @ [DriveFilesList (file_listing_request folderId)]\<rparr>"
    by blast
  let ?children = "filter (\<lambda>r. folderId \<in> set (r_parents r) \<and> \<not> r_trashed r) store"
  let ?page = "take 100 (order_by (Some ''modifiedTime desc'') ?children)"
  let ?sel = "''files(id, name, createdTime, modifiedTime)''"
  have q: "matches (InParentsNotTrashed folderId) =
      (\<lambda>r. folderId \<in> set (r_parents r) \<and> \<not> r_trashed r)"
    by (rule ext) simp
  from li drive have "response = drive_files_list store (file_listing_request folderId)"
    by simp
  with fs have eq: "fs = map (project ?sel) ?page"
    by (simp add: drive_files_list_def file_listing_request_def q)
  have sorted_page: "sorted_wrt (\<lambda>a b. r_modifiedTime b \<le> r_modifiedTime a) ?page"
    by (rule sorted_wrt_take) (rule order_by_desc_sorted)
  show "length fs \<le> 100"
    by (simp add: eq)
  show "sorted_wrt (\<lambda>a b. \<exists>x y. modifiedTime a = Some x \<and> modifiedTime b = Some y \<and> y \<le> x) fs"
    using sorted_page by (simp add: eq sorted_wrt_map project_def)
  have members: "\<forall>f \<in> set fs. \<exists>r \<in> set store.
                     file_id f = r_id r \<and> file_name f = r_name r
                     \<and> modifiedTime f = Some (r_modifiedTime r)
                     \<and> folderId \<in> set (r_parents r) \<and> \<not> r_trashed r"
  proof
    fix f assume "f \<in> set fs"
    then obtain r where r: "r \<in> set ?page" and f: "f = project ?sel r"
      by (auto simp: eq)
    from r have "r \<in> set (order_by (Some ''modifiedTime desc'') ?children)"
      by (rule in_set_takeD)
    then have "r \<in> set ?children"
      by (simp only: set_order_by)
    with f show "\<exists>r \<in> set store.
                     file_id f = r_id r \<and> file_name f = r_name r
                     \<and> modifiedTime f = Some (r_modifiedTime r)
                     \<and> folderId \<in> set (r_parents r) \<and> \<not> r_trashed r"
      by (auto simp: project_def)
  qed
  have call: "DriveFilesList (file_listing_request folderId)
                   \<in> set (new_calls s (snd (listFilesFromGoogleCloud env s)))"
    by (simp add: s' new_calls_def trace_after_auth)
  from folder resolved_folder_in_store [OF drive folder] call members eq
  show "\<exists>folderId. resolved_folder env = Some folderId
               \<and> ((\<exists>r \<in> set store. r_id r = folderId \<and> r_name r = folderName
                      \<and> r_mimeType r = ''application/vnd.google-apps.folder''
                      \<and> \<not> r_trashed r)
                    \<or> files_create env (folder_create_request folderName) = Resolves folderId)
               \<and> DriveFilesList (file_listing_request folderId)
                   \<in> set (new_calls s (snd (listFilesFromGoogleCloud env s)))
               \<and> (\<forall>f \<in> set fs. \<exists>r \<in> set store.
                     file_id f = r_id r \<and> file_name f = r_name r
                     \<and> modifiedTime f = Some (r_modifiedTime r)
                     \<and> folderId \<in> set (r_parents r) \<and> \<not> r_trashed r)
               \<and> fs = map (project ''files(id, name, createdTime, modifiedTime)'')
                   (take 100 (rev (sort_key r_modifiedTime
                      (filter (\<lambda>r. folderId \<in> set (r_parents r) \<and> \<not> r_trashed r) store))))"
    by (auto simp: order_by_def)
next
  assume a: "client_ready env s \<and> auth_succeeds env \<and> resolved_folder env \<noteq> None"
  then obtain folderId where folder: "resolved_folder env = Some folderId"
    by blast
  from drive have "files_list env (file_listing_request folderId) =
      Resolves (drive_files_list store (file_listing_request folderId))"
    by simp
  from list_body_succeeds [OF _ _ folder this] a
  have "fst (list_body env s) =
      Returned (case files (drive_files_list store (file_listing_request folderId)) of
                  Some fs \<Rightarrow> fs | None \<Rightarrow> [])"
    by simp
  then show "\<exists>fs. fst (listFilesFromGoogleCloud env s) = Returned fs"
    by (simp add: listFilesFromGoogleCloud_def tryCatch_Returned)
qed

theorem list_returns_capped_ordered_children_witness:
  "(\<forall>req. files_list drive_remote req = Resolves (drive_files_list example_store req))
   \<and> client_ready drive_remote fresh_state \<and> auth_succeeds drive_remote
   \<and> resolved_folder drive_remote = Some ''folder-1''
   \<and> fst (listFilesFromGoogleCloud drive_remote fresh_state) =
       Returned [\<lparr>file_id = ''b'', file_name = ''second.excalidraw'',
                  createdTime = Some 20, modifiedTime = Some 30\<rparr>,
                 \<lparr>file_id = ''a'', file_name = ''first.excalidraw'',
                  createdTime = Some 10, modifiedTime = Some 10\<rparr>]"
proof -
  have drive: "\<forall>req. files_list drive_remote req = Resolves (drive_files_list example_store req)"
    by simp
  have page: "map (project ''files(id, name, createdTime, modifiedTime)'')
      (take 100 (rev (sort_key r_modifiedTime
         (filter (\<lambda>r. ''folder-1'' \<in> set (r_parents r) \<and> \<not> r_trashed r) example_store)))) =
       [\<lparr>file_id = ''b'', file_name = ''second.excalidraw'',
         createdTime = Some 20, modifiedTime = Some 30\<rparr>,
        \<lparr>file_id = ''a'', file_name = ''first.excalidraw'',
         createdTime = Some 10, modifiedTime = Some 10\<rparr>]"
    by (simp add: example_store_def project_def)
  from list_returns_capped_ordered_children [OF drive, of fresh_state]
  obtain fs where fs: "fst (listFilesFromGoogleCloud drive_remote fresh_state) = Returned fs"
    by auto
  with list_returns_capped_ordered_children [OF drive, of fresh_state fs]
  have "fs = map (project ''files(id, name, createdTime, modifiedTime)'')
      (take 100 (rev (sort_key r_modifiedTime
         (filter (\<lambda>r. ''folder-1'' \<in> set (r_parents r) \<and> \<not> r_trashed r) example_store))))"
    by auto
  with fs page drive show ?thesis
    by simp
qed

end
